theory Spec2Isabelle
  imports Complex_Main "HOL-Library.Word"
begin

section \<open>JavaScript maps\<close>

text \<open>
  A \<open>Map\<close> (and the property list of an object) keeps its entries in insertion order:
  \<open>set\<close> on a key that is present replaces the value in place, on a new key it appends;
  iteration follows the list.
\<close>

type_synonym ('k, 'v) jsmap = "('k \<times> 'v) list"

definition mapGet :: "('k, 'v) jsmap \<Rightarrow> 'k \<Rightarrow> 'v option" where
  "mapGet m k = map_of m k"

definition mapHas :: "('k, 'v) jsmap \<Rightarrow> 'k \<Rightarrow> bool" where
  "mapHas m k = (k \<in> set (map fst m))"

definition mapSet :: "'k \<Rightarrow> 'v \<Rightarrow> ('k, 'v) jsmap \<Rightarrow> ('k, 'v) jsmap" where
  "mapSet k v m =
     (if mapHas m k then map (\<lambda>(k', v'). if k' = k then (k', v) else (k', v')) m
      else m @ [(k, v)])"

definition mapDelete :: "'k \<Rightarrow> ('k, 'v) jsmap \<Rightarrow> ('k, 'v) jsmap" where
  "mapDelete k m = filter (\<lambda>(k', v'). k' \<noteq> k) m"

definition mapValues :: "('k, 'v) jsmap \<Rightarrow> 'v list" where
  "mapValues m = map snd m"

section \<open>Entropy and identity (whispurrnet/utils/entropy.ts)\<close>

text \<open>
  JavaScript strings are modelled as \<open>string\<close> (character lists); a \<open>Uint8Array\<close> is a
  list of 8-bit words. \<open>Date.now()\<close> and the bytes drawn from \<open>crypto.getRandomValues\<close>
  are inputs of the functions that read them.
\<close>

type_synonym byte = "8 word"

datatype error = InvalidNodeIdFormat | TypeError | SyntaxError

text \<open>\<open>Number.prototype.toString(16)\<close> on an integer: lowercase digits, a leading
  minus sign for a negative value, no padding.\<close>

definition hexDigit :: "nat \<Rightarrow> char" where
  "hexDigit d = char_of (if d < 10 then 48 + d else 87 + d)"

function natToString16 :: "nat \<Rightarrow> string" where
  "natToString16 n =
     (if n < 16 then [hexDigit n] else natToString16 (n div 16) @ [hexDigit (n mod 16)])"
  by pat_completeness auto
termination
  by (relation "measure (\<lambda>n. n)") auto

declare natToString16.simps [simp del]

definition toString16 :: "int \<Rightarrow> string" where
  "toString16 i = (if i < 0 then CHR ''-'' # natToString16 (nat (- i)) else natToString16 (nat i))"

text \<open>\<open>String.prototype.padStart(n, c)\<close> with a one-character filler.\<close>

definition padStart :: "nat \<Rightarrow> char \<Rightarrow> string \<Rightarrow> string" where
  "padStart n c s = replicate (n - length s) c @ s"

text \<open>\<open>Array.from(bytes).map(b => b.toString(16).padStart(2, '0')).join('')\<close>\<close>

definition bytesToHex :: "byte list \<Rightarrow> string" where
  "bytesToHex bs = concat (map (\<lambda>b. padStart 2 (CHR ''0'') (toString16 (uint b))) bs)"

text \<open>\<open>generateEphemeralNodeId\<close>: \<open>entropy\<close> is the result of \<open>generateSecureBytes(16)\<close>,
  \<open>timestamp\<close> the value of \<open>Date.now()\<close>.\<close>

definition generateEphemeralNodeId :: "byte list \<Rightarrow> int \<Rightarrow> string" where
  "generateEphemeralNodeId entropy timestamp =
     (let entropyHex = bytesToHex entropy;
          timestampHex = toString16 timestamp
      in entropyHex @ '':'' @ timestampHex)"

text \<open>\<open>String.prototype.split\<close> on a one-character separator: the pieces between the
  separators, in order; the empty string gives one empty piece.\<close>

fun split :: "char \<Rightarrow> string \<Rightarrow> string list" where
  "split c [] = [[]]"
| "split c (x # xs) =
     (if x = c then [] # split c xs
      else (case split c xs of [] \<Rightarrow> [[x]] | p # ps \<Rightarrow> (x # p) # ps))"

text \<open>The character class \<open>[0-9a-f]\<close>, by code points.\<close>

definition isLowerHex :: "char \<Rightarrow> bool" where
  "isLowerHex c =
     (let k = (of_char c :: nat) in (48 \<le> k \<and> k \<le> 57) \<or> (97 \<le> k \<and> k \<le> 102))"

text \<open>The two regular-expression tests of \<open>validateNodeId\<close>:
  \<open>/^[0-9a-f]{32}$/\<close> and \<open>/^[0-9a-f]+$/\<close>. In JavaScript \<open>$\<close> without the \<open>m\<close> flag
  matches at the end of the input only.\<close>

definition testEntropy :: "string \<Rightarrow> bool" where
  "testEntropy s = (length s = 32 \<and> list_all isLowerHex s)"

definition testTimestamp :: "string \<Rightarrow> bool" where
  "testTimestamp s = (s \<noteq> [] \<and> list_all isLowerHex s)"

definition validateNodeId :: "string \<Rightarrow> bool" where
  "validateNodeId nodeId =
     (let parts = split (CHR '':'') nodeId in
      if length parts \<noteq> 2 then False
      else let entropy = parts ! 0; timestamp = parts ! 1 in
        if \<not> testEntropy entropy then False
        else if \<not> testTimestamp timestamp then False
        else True)"

text \<open>\<open>parseInt(s, 16)\<close>: leading white space is skipped, then an optional sign and an
  optional \<open>0x\<close>/\<open>0X\<close> prefix; the longest run of hexadecimal digits (either case) is
  read; with no digit the result is \<open>NaN\<close>, here \<open>None\<close>.\<close>

definition isSpace :: "char \<Rightarrow> bool" where
  "isSpace c = (let k = (of_char c :: nat) in k = 32 \<or> (9 \<le> k \<and> k \<le> 13))"

definition hexValue :: "char \<Rightarrow> nat option" where
  "hexValue c =
     (let k = (of_char c :: nat) in
      if 48 \<le> k \<and> k \<le> 57 then Some (k - 48)
      else if 97 \<le> k \<and> k \<le> 102 then Some (k - 87)
      else if 65 \<le> k \<and> k \<le> 70 then Some (k - 55)
      else None)"

fun readHex :: "nat \<Rightarrow> string \<Rightarrow> nat" where
  "readHex acc [] = acc"
| "readHex acc (c # cs) =
     (case hexValue c of None \<Rightarrow> acc | Some d \<Rightarrow> readHex (acc * 16 + d) cs)"

fun stripSign :: "string \<Rightarrow> int \<times> string" where
  "stripSign (c # cs) =
     (if c = CHR ''-'' then (-1, cs) else if c = CHR ''+'' then (1, cs) else (1, c # cs))"
| "stripSign [] = (1, [])"

fun strip0x :: "string \<Rightarrow> string" where
  "strip0x (a # b # cs) =
     (if a = CHR ''0'' \<and> (b = CHR ''x'' \<or> b = CHR ''X'') then cs else a # b # cs)"
| "strip0x cs = cs"

definition parseInt16 :: "string \<Rightarrow> int option" where
  "parseInt16 s =
     (let (sign, s1) = stripSign (dropWhile isSpace s);
          s2 = strip0x s1
      in case s2 of
           [] \<Rightarrow> None
         | c # cs \<Rightarrow> (if hexValue c = None then None else Some (sign * int (readHex 0 s2))))"

text \<open>\<open>extractTimestamp\<close> throws on an identifier that does not validate.\<close>

definition extractTimestamp :: "string \<Rightarrow> error + int option" where
  "extractTimestamp nodeId =
     (if \<not> validateNodeId nodeId then Inl InvalidNodeIdFormat
      else let timestamp = split (CHR '':'') nodeId ! 1 in Inr (parseInt16 timestamp))"


text \<open>The pattern \<open>^[0-9a-f]{32}:[0-9a-f]+$\<close> of the specification, read as a
  decomposition of the whole string.\<close>

definition nodeIdPattern :: "string \<Rightarrow> bool" where
  "nodeIdPattern s =
     (\<exists>e t. s = e @ CHR '':'' # t \<and> length e = 32 \<and> list_all isLowerHex e \<and>
            t \<noteq> [] \<and> list_all isLowerHex t)"

section \<open>Protocol (whispurrnet/Protocol.ts)\<close>

text \<open>
  JavaScript numbers are modelled as real numbers (\<open>NaN\<close> and the infinities are left
  out); \<open>Date.now()\<close> is an integer. A value of type \<open>any\<close> is a \<open>jsval\<close>; an object is
  the list of its properties in insertion order. The text produced by \<open>JSON.stringify\<close>
  and read by \<open>JSON.parse\<close> is modelled by the JSON value it denotes (\<open>json\<close>), and a text
  that does not parse by \<open>Malformed\<close>.
\<close>

datatype jsval =
    JUndefined | JNull | JBool bool | JNum real | JStr string
  | JArr "jsval list" | JBytes "byte list" | JObj "(string \<times> jsval) list"

datatype json =
    JsonNull | JsonBool bool | JsonNum real | JsonStr string
  | JsonArr "json list" | JsonObj "(string \<times> json) list"

datatype wire = Malformed | Text json

text \<open>\<open>JSON.parse\<close> on the value a text denotes.\<close>

fun ofJson :: "json \<Rightarrow> jsval" where
  "ofJson JsonNull = JNull"
| "ofJson (JsonBool b) = JBool b"
| "ofJson (JsonNum x) = JNum x"
| "ofJson (JsonStr s) = JStr s"
| "ofJson (JsonArr xs) = JArr (map ofJson xs)"
| "ofJson (JsonObj fs) = JObj (map (\<lambda>(k, v). (k, ofJson v)) fs)"

text \<open>Property read \<open>v.k\<close>: \<open>undefined\<close> for a missing property. (Reading a property
  of \<open>null\<close> or \<open>undefined\<close> throws; the callers below test for that first.)\<close>

definition field :: "jsval \<Rightarrow> string \<Rightarrow> jsval" where
  "field v k = (case v of JObj fs \<Rightarrow> (case mapGet fs k of Some x \<Rightarrow> x | None \<Rightarrow> JUndefined)
                | _ \<Rightarrow> JUndefined)"

text \<open>JavaScript truthiness: \<open>!v\<close> is \<open>\<not> truthy v\<close>.\<close>

fun truthy :: "jsval \<Rightarrow> bool" where
  "truthy JUndefined = False"
| "truthy JNull = False"
| "truthy (JBool b) = b"
| "truthy (JNum x) = (x \<noteq> 0)"
| "truthy (JStr s) = (s \<noteq> [])"
| "truthy (JArr xs) = True"
| "truthy (JBytes bs) = True"
| "truthy (JObj fs) = True"

fun isNumber :: "jsval \<Rightarrow> bool" where
  "isNumber (JNum x) = True"
| "isNumber v = False"

fun isArray :: "jsval \<Rightarrow> bool" where
  "isArray (JArr xs) = True"
| "isArray v = False"

text \<open>The numeric value of an operand of \<open>-\<close>, \<open><\<close> or \<open>>\<close>. For a value that is not a
  number the platform's conversion \<open>coerce\<close> decides; \<open>None\<close> stands for \<open>NaN\<close>.\<close>

definition toNumber :: "(jsval \<Rightarrow> real option) \<Rightarrow> jsval \<Rightarrow> real option" where
  "toNumber coerce v = (case v of JNum x \<Rightarrow> Some x | _ \<Rightarrow> coerce v)"

definition PROTOCOL_VERSION :: string where
  "PROTOCOL_VERSION = ''1.0.0''"

datatype MessageType =
    WHISPER | BROADCAST | RESONANCE | PING | PONG
  | FILE_SYNC | MINING_SIGNAL | DREAMSPACE
  | HELLO | GOODBYE | ERROR

fun typeString :: "MessageType \<Rightarrow> string" where
  "typeString WHISPER = ''whisper''"
| "typeString BROADCAST = ''broadcast''"
| "typeString RESONANCE = ''resonance''"
| "typeString PING = ''ping''"
| "typeString PONG = ''pong''"
| "typeString FILE_SYNC = ''file_sync''"
| "typeString MINING_SIGNAL = ''mining_signal''"
| "typeString DREAMSPACE = ''dreamspace''"
| "typeString HELLO = ''hello''"
| "typeString GOODBYE = ''goodbye''"
| "typeString ERROR = ''error''"

text \<open>\<open>Object.values(MessageType)\<close>, in declaration order.\<close>

definition messageTypeValues :: "MessageType list" where
  "messageTypeValues =
     [WHISPER, BROADCAST, RESONANCE, PING, PONG, FILE_SYNC, MINING_SIGNAL, DREAMSPACE,
      HELLO, GOODBYE, ERROR]"

text \<open>The kind-specific fields of the interfaces that extend \<open>BaseMessage\<close>. A field
  filled from \<open>options.f!\<close> is \<open>undefined\<close> (\<open>None\<close>) when the option is absent. The
  structured data of the extension kinds is JSON data.\<close>

datatype Extra =
    NoExtra
  | WhisperExtra "string option"
  | BroadcastExtra real real "string list"
  | ResonanceExtra string real
  | FileSyncExtra "string option" real real json
  | MiningSignalExtra "string option" json
  | DreamspaceExtra "string option" json

record Message =
  msgType :: MessageType
  senderId :: string
  resonanceKey :: "byte list"
  whisperTag :: string
  payload :: string
  timestamp :: real
  version :: string
  ttl :: real
  nonce :: string
  extra :: Extra

text \<open>The errors and warnings of \<open>validateMessage\<close>, one constructor for each text pushed:
  \<open>Missing message type\<close>, \<open>Missing sender ID\<close>, \<open>Missing resonance key\<close>,
  \<open>Missing whisper tag\<close>, \<open>Missing payload\<close>, \<open>Missing timestamp\<close>, \<open>Missing version\<close>,
  \<open>Missing TTL\<close>, \<open>Missing nonce\<close>, \<open>Invalid message type: \<dots>\<close>,
  \<open>Timestamp must be a number\<close>, \<open>TTL must be a positive number\<close>, \<open>Message has expired\<close>,
  \<open>Whisper message missing target ID\<close>, \<open>Broadcast message must have valid maxHops\<close>,
  \<open>Broadcast message must have valid currentHops\<close>, \<open>Broadcast message must have seenBy array\<close>,
  \<open>Resonance message missing intent\<close>, \<open>Resonance strength must be between 0 and 1\<close>;
  the warning is \<open>Protocol version mismatch: \<dots>\<close>.\<close>

datatype issue =
    MissingType | MissingSenderId | MissingResonanceKey | MissingWhisperTag | MissingPayload
  | MissingTimestamp | MissingVersion | MissingTTL | MissingNonce
  | InvalidMessageType jsval | TimestampNotNumber | TTLNotPositive | MessageExpired
  | WhisperMissingTarget | BroadcastInvalidMaxHops | BroadcastInvalidCurrentHops
  | BroadcastMissingSeenBy | ResonanceMissingIntent | ResonanceInvalidStrength
  | VersionMismatch jsval

record ValidationResult =
  isValid :: bool
  errors :: "issue list"
  warnings :: "issue list"

text \<open>\<open>c ? [e] : []\<close>, for the conditional pushes.\<close>

definition pushIf :: "bool \<Rightarrow> issue \<Rightarrow> issue list" where
  "pushIf c e = (if c then [e] else [])"

definition numIs :: "(real \<Rightarrow> bool) \<Rightarrow> jsval \<Rightarrow> bool" where
  "numIs p v = (case v of JNum x \<Rightarrow> p x | _ \<Rightarrow> False)"

text \<open>\<open>validateMessage(message)\<close> at clock value \<open>now\<close>. The checks push in the order of
  the source.\<close>

definition validateMessage ::
  "(jsval \<Rightarrow> real option) \<Rightarrow> int \<Rightarrow> jsval \<Rightarrow> error + ValidationResult" where
  "validateMessage coerce now message =
     (if message = JUndefined \<or> message = JNull then Inl TypeError
      else
        let ty = field message ''type'';
            ts = field message ''timestamp'';
            tl = field message ''ttl'';
            ver = field message ''version'';
            required =
              pushIf (\<not> truthy ty) MissingType @
              pushIf (\<not> truthy (field message ''senderId'')) MissingSenderId @
              pushIf (\<not> truthy (field message ''resonanceKey'')) MissingResonanceKey @
              pushIf (\<not> truthy (field message ''whisperTag'')) MissingWhisperTag @
              pushIf (\<not> truthy (field message ''payload'')) MissingPayload @
              pushIf (\<not> truthy ts) MissingTimestamp @
              pushIf (\<not> truthy ver) MissingVersion @
              pushIf (\<not> truthy tl) MissingTTL @
              pushIf (\<not> truthy (field message ''nonce'')) MissingNonce;
            kind =
              pushIf (truthy ty \<and> ty \<notin> set (map (JStr \<circ> typeString) messageTypeValues))
                (InvalidMessageType ty);
            stamp = pushIf (truthy ts \<and> \<not> isNumber ts) TimestampNotNumber;
            life = pushIf (truthy tl \<and> (\<not> isNumber tl \<or> numIs (\<lambda>x. x < 0) tl)) TTLNotPositive;
            age =
              pushIf (truthy ts \<and> truthy tl \<and>
                (case (toNumber coerce ts, toNumber coerce tl) of
                   (Some t, Some l) \<Rightarrow> of_int now - t > l
                 | _ \<Rightarrow> False)) MessageExpired;
            warns = pushIf (truthy ver \<and> ver \<noteq> JStr PROTOCOL_VERSION) (VersionMismatch ver);
            whisper =
              pushIf (ty = JStr (typeString WHISPER) \<and> \<not> truthy (field message ''targetId''))
                WhisperMissingTarget;
            broadcast =
              (if ty = JStr (typeString BROADCAST) then
                 pushIf (\<not> numIs (\<lambda>x. 0 \<le> x) (field message ''maxHops'')) BroadcastInvalidMaxHops @
                 pushIf (\<not> numIs (\<lambda>x. 0 \<le> x) (field message ''currentHops''))
                   BroadcastInvalidCurrentHops @
                 pushIf (\<not> isArray (field message ''seenBy'')) BroadcastMissingSeenBy
               else []);
            resonance =
              (if ty = JStr (typeString RESONANCE) then
                 pushIf (\<not> truthy (field message ''intent'')) ResonanceMissingIntent @
                 pushIf (\<not> numIs (\<lambda>x. 0 \<le> x \<and> x \<le> 1) (field message ''strength''))
                   ResonanceInvalidStrength
               else []);
            errs = required @ kind @ stamp @ life @ age @ whisper @ broadcast @ resonance
        in Inr \<lparr>isValid = (errs = []), errors = errs, warnings = warns\<rparr>)"

text \<open>\<open>deriveResonanceKey\<close> and \<open>generateWhisperTag\<close> of entropy.ts. \<open>sha256\<close> is the
  platform's digest; a string is encoded by its UTF-8 bytes, one \<open>char\<close> each. The optional
  \<open>metadata\<close> is given by its \<open>JSON.stringify\<close> text.\<close>

definition encode :: "string \<Rightarrow> byte list" where
  "encode s = map of_char s"

definition deriveResonanceKey :: "(byte list \<Rightarrow> byte list) \<Rightarrow> string \<Rightarrow> byte list" where
  "deriveResonanceKey sha256 intent = sha256 (encode intent)"

definition generateWhisperTag ::
  "(byte list \<Rightarrow> byte list) \<Rightarrow> string \<Rightarrow> string option \<Rightarrow> string" where
  "generateWhisperTag sha256 topic metadata =
     (let topicBytes = encode topic;
          dataToHash = (case metadata of None \<Rightarrow> topicBytes
                        | Some metadataStr \<Rightarrow> topicBytes @ encode metadataStr)
      in bytesToHex (take 8 (sha256 dataToHash)))"

text \<open>The \<open>options\<close> argument of \<open>createMessage\<close>; every property is optional.\<close>

record Options =
  intent :: "string option"
  whisperTag :: "string option"
  ttl :: "real option"
  targetId :: "string option"
  maxHops :: "real option"
  fileId :: "string option"
  chunkIndex :: "real option"
  totalChunks :: "real option"
  metadata :: "json option"
  signalType :: "string option"
  signalData :: "json option"
  burstId :: "string option"
  burstData :: "json option"

definition noOptions :: Options where
  "noOptions = \<lparr>intent = None, whisperTag = None, ttl = None, targetId = None, maxHops = None,
     fileId = None, chunkIndex = None, totalChunks = None, metadata = None, signalType = None,
     signalData = None, burstId = None, burstData = None\<rparr>"

text \<open>\<open>a || b\<close> on an optional string, an optional number and an optional object.\<close>

definition orString :: "string option \<Rightarrow> string \<Rightarrow> string" where
  "orString a b = (case a of None \<Rightarrow> b | Some s \<Rightarrow> if s = [] then b else s)"

definition orNumber :: "real option \<Rightarrow> real \<Rightarrow> real" where
  "orNumber a b = (case a of None \<Rightarrow> b | Some x \<Rightarrow> if x = 0 then b else x)"

definition orObject :: "json option \<Rightarrow> json \<Rightarrow> json" where
  "orObject a b = (case a of None \<Rightarrow> b | Some v \<Rightarrow> v)"

text \<open>\<open>createMessage(type, senderId, payload, options)\<close>; \<open>now\<close> is \<open>Date.now()\<close> and
  \<open>uuid\<close> the result of \<open>crypto.randomUUID()\<close>.\<close>

definition createMessage ::
  "(byte list \<Rightarrow> byte list) \<Rightarrow> int \<Rightarrow> string \<Rightarrow>
   MessageType \<Rightarrow> string \<Rightarrow> string \<Rightarrow> Options \<Rightarrow> Message" where
  "createMessage sha256 now uuid type sender content options =
     (let intent' = orString (Options.intent options) ''default'';
          resonanceKey' = deriveResonanceKey sha256 intent';
          whisperTag' =
            orString (Options.whisperTag options) (generateWhisperTag sha256 intent' None);
          baseMessage = \<lparr>
            msgType = type,
            senderId = sender,
            resonanceKey = resonanceKey',
            whisperTag = whisperTag',
            payload = content,
            timestamp = of_int now,
            version = PROTOCOL_VERSION,
            ttl = orNumber (Options.ttl options) 300000,
            nonce = uuid,
            extra = NoExtra\<rparr>
      in case type of
           WHISPER \<Rightarrow> baseMessage\<lparr>extra := WhisperExtra (Options.targetId options)\<rparr>
         | BROADCAST \<Rightarrow>
             baseMessage\<lparr>extra := BroadcastExtra (orNumber (Options.maxHops options) 10) 0 [sender]\<rparr>
         | RESONANCE \<Rightarrow> baseMessage\<lparr>extra := ResonanceExtra intent' 1.0\<rparr>
         | FILE_SYNC \<Rightarrow>
             baseMessage\<lparr>extra := FileSyncExtra (Options.fileId options)
               (orNumber (Options.chunkIndex options) 0) (orNumber (Options.totalChunks options) 1)
               (orObject (Options.metadata options) (JsonObj []))\<rparr>
         | MINING_SIGNAL \<Rightarrow>
             baseMessage\<lparr>extra := MiningSignalExtra (Options.signalType options)
               (orObject (Options.signalData options) (JsonObj []))\<rparr>
         | DREAMSPACE \<Rightarrow>
             baseMessage\<lparr>extra := DreamspaceExtra (Options.burstId options)
               (orObject (Options.burstData options) (JsonObj []))\<rparr>
         | _ \<Rightarrow> baseMessage)"

text \<open>The object a \<open>Message\<close> is at run time: the common properties in the order
  \<open>createMessage\<close> writes them, then the kind-specific ones.\<close>

definition optStr :: "string option \<Rightarrow> jsval" where
  "optStr a = (case a of None \<Rightarrow> JUndefined | Some s \<Rightarrow> JStr s)"

fun extraProps :: "Extra \<Rightarrow> (string \<times> jsval) list" where
  "extraProps NoExtra = []"
| "extraProps (WhisperExtra t) = [(''targetId'', optStr t)]"
| "extraProps (BroadcastExtra m c s) =
     [(''maxHops'', JNum m), (''currentHops'', JNum c), (''seenBy'', JArr (map JStr s))]"
| "extraProps (ResonanceExtra i s) = [(''intent'', JStr i), (''strength'', JNum s)]"
| "extraProps (FileSyncExtra f c t m) =
     [(''fileId'', optStr f), (''chunkIndex'', JNum c), (''totalChunks'', JNum t),
      (''metadata'', ofJson m)]"
| "extraProps (MiningSignalExtra t d) = [(''signalType'', optStr t), (''signalData'', ofJson d)]"
| "extraProps (DreamspaceExtra b d) = [(''burstId'', optStr b), (''burstData'', ofJson d)]"

definition toJS :: "Message \<Rightarrow> jsval" where
  "toJS m = JObj (
     [(''type'', JStr (typeString (msgType m))),
      (''senderId'', JStr (senderId m)),
      (''resonanceKey'', JBytes (resonanceKey m)),
      (''whisperTag'', JStr (Message.whisperTag m)),
      (''payload'', JStr (payload m)),
      (''timestamp'', JNum (timestamp m)),
      (''version'', JStr (version m)),
      (''ttl'', JNum (Message.ttl m)),
      (''nonce'', JStr (nonce m))] @ extraProps (extra m))"

text \<open>\<open>serializeMessage\<close>: \<open>JSON.stringify\<close> of the message with \<open>resonanceKey\<close> replaced
  by \<open>Array.from(message.resonanceKey)\<close>. \<open>JSON.stringify\<close> writes the properties in order
  and leaves out a property whose value is \<open>undefined\<close>.\<close>

definition optStrJson :: "string \<Rightarrow> string option \<Rightarrow> (string \<times> json) list" where
  "optStrJson k a = (case a of None \<Rightarrow> [] | Some s \<Rightarrow> [(k, JsonStr s)])"

fun extraJson :: "Extra \<Rightarrow> (string \<times> json) list" where
  "extraJson NoExtra = []"
| "extraJson (WhisperExtra t) = optStrJson ''targetId'' t"
| "extraJson (BroadcastExtra m c s) =
     [(''maxHops'', JsonNum m), (''currentHops'', JsonNum c), (''seenBy'', JsonArr (map JsonStr s))]"
| "extraJson (ResonanceExtra i s) = [(''intent'', JsonStr i), (''strength'', JsonNum s)]"
| "extraJson (FileSyncExtra f c t m) =
     optStrJson ''fileId'' f @
     [(''chunkIndex'', JsonNum c), (''totalChunks'', JsonNum t), (''metadata'', m)]"
| "extraJson (MiningSignalExtra t d) = optStrJson ''signalType'' t @ [(''signalData'', d)]"
| "extraJson (DreamspaceExtra b d) = optStrJson ''burstId'' b @ [(''burstData'', d)]"

definition serializeMessage :: "Message \<Rightarrow> wire" where
  "serializeMessage m = Text (JsonObj (
     [(''type'', JsonStr (typeString (msgType m))),
      (''senderId'', JsonStr (senderId m)),
      (''resonanceKey'', JsonArr (map (\<lambda>b. JsonNum (of_nat (unat b))) (resonanceKey m))),
      (''whisperTag'', JsonStr (Message.whisperTag m)),
      (''payload'', JsonStr (payload m)),
      (''timestamp'', JsonNum (timestamp m)),
      (''version'', JsonStr (version m)),
      (''ttl'', JsonNum (Message.ttl m)),
      (''nonce'', JsonStr (nonce m))] @ extraJson (extra m)))"

text \<open>\<open>new Uint8Array(array)\<close> converts every element to a number, truncates it towards
  zero and keeps it modulo 256; \<open>NaN\<close> gives 0.\<close>

definition toUint8 :: "(jsval \<Rightarrow> real option) \<Rightarrow> jsval \<Rightarrow> byte" where
  "toUint8 coerce v =
     (case toNumber coerce v of
        None \<Rightarrow> 0
      | Some x \<Rightarrow> of_int (if 0 \<le> x then \<lfloor>x\<rfloor> else \<lceil>x\<rceil>))"

text \<open>\<open>deserializeMessage\<close>: \<open>JSON.parse\<close> throws a \<open>SyntaxError\<close> on a malformed text,
  and reading \<open>parsed.resonanceKey\<close> throws a \<open>TypeError\<close> when the text is \<open>null\<close>.\<close>

definition deserializeMessage :: "(jsval \<Rightarrow> real option) \<Rightarrow> wire \<Rightarrow> error + jsval" where
  "deserializeMessage coerce w =
     (case w of
        Malformed \<Rightarrow> Inl SyntaxError
      | Text j \<Rightarrow>
          (let parsed = ofJson j in
           if parsed = JNull then Inl TypeError
           else case (parsed, field parsed ''resonanceKey'') of
                  (JObj fs, JArr xs) \<Rightarrow>
                    Inr (JObj (mapSet ''resonanceKey'' (JBytes (map (toUint8 coerce) xs)) fs))
                | _ \<Rightarrow> Inr parsed))"

text \<open>\<open>matchesResonance\<close>, \<open>isMessageExpired\<close> and \<open>getMessageAge\<close>.\<close>

definition matchesResonance :: "Message \<Rightarrow> string \<Rightarrow> real \<Rightarrow> bool" where
  "matchesResonance message targetIntent minStrength =
     (case extra message of
        ResonanceExtra i s \<Rightarrow>
          if msgType message \<noteq> RESONANCE then False
          else if i \<noteq> targetIntent then False
          else if s < minStrength then False
          else True
      | _ \<Rightarrow> False)"

definition getMessageAge :: "int \<Rightarrow> Message \<Rightarrow> real" where
  "getMessageAge now message = of_int now - timestamp message"

definition isMessageExpired :: "int \<Rightarrow> Message \<Rightarrow> bool" where
  "isMessageExpired now message = (of_int now - timestamp message > Message.ttl message)"

text \<open>
  The well-formedness of the data model, for the round trip: the kind-specific fields of
  the message's kind are present, hop counts are not negative, the strength lies in
  \<open>[0, 1]\<close>, the time-to-live is not negative and the message is fresh at \<open>now\<close>.
\<close>

fun kindFields :: "MessageType \<Rightarrow> Extra \<Rightarrow> bool" where
  "kindFields k NoExtra = (k \<in> {PING, PONG, HELLO, GOODBYE, ERROR})"
| "kindFields k (WhisperExtra t) = (k = WHISPER \<and> t \<noteq> None)"
| "kindFields k (BroadcastExtra m c s) = (k = BROADCAST \<and> 0 \<le> m \<and> 0 \<le> c)"
| "kindFields k (ResonanceExtra i s) = (k = RESONANCE \<and> 0 \<le> s \<and> s \<le> 1)"
| "kindFields k (FileSyncExtra f c t m) = (k = FILE_SYNC \<and> f \<noteq> None)"
| "kindFields k (MiningSignalExtra t d) = (k = MINING_SIGNAL \<and> t \<noteq> None)"
| "kindFields k (DreamspaceExtra b d) = (k = DREAMSPACE \<and> b \<noteq> None)"

definition wellFormed :: "int \<Rightarrow> Message \<Rightarrow> bool" where
  "wellFormed now m =
     (kindFields (msgType m) (extra m) \<and> 0 \<le> Message.ttl m \<and>
      of_int now - timestamp m \<le> Message.ttl m)"

text \<open>What the required-field tests of \<open>validateMessage\<close> ask in addition: no empty
  string and no zero among the fields they read.\<close>

fun kindTruthy :: "Extra \<Rightarrow> bool" where
  "kindTruthy (WhisperExtra t) = (t \<noteq> Some [])"
| "kindTruthy (ResonanceExtra i s) = (i \<noteq> [])"
| "kindTruthy e = True"

definition truthyFields :: "Message \<Rightarrow> bool" where
  "truthyFields m =
     (senderId m \<noteq> [] \<and> Message.whisperTag m \<noteq> [] \<and> payload m \<noteq> [] \<and>
      timestamp m \<noteq> 0 \<and> version m \<noteq> [] \<and> Message.ttl m \<noteq> 0 \<and> nonce m \<noteq> [] \<and>
      kindTruthy (extra m))"

text \<open>The receiving check of Node.ts (\<open>dataChannel.onmessage\<close> and the \<open>message\<close> arm of
  \<open>handleRelayMessage\<close>): the text is deserialized and validated inside a \<open>try\<close>; the
  message goes on to \<open>handleMessage\<close> only when nothing was thrown and the result is
  valid.\<close>

definition validAtReceiver :: "(jsval \<Rightarrow> real option) \<Rightarrow> int \<Rightarrow> wire \<Rightarrow> bool" where
  "validAtReceiver coerce now w =
     (case deserializeMessage coerce w of
        Inl e \<Rightarrow> False
      | Inr message \<Rightarrow>
          (case validateMessage coerce now message of Inl e \<Rightarrow> False | Inr r \<Rightarrow> isValid r))"

section \<open>Node and connection management (whispurrnet/Node.ts)\<close>

datatype ConnectionState = DISCONNECTED | CONNECTING | CONNECTED | RELAYING | ERROR

datatype ConnectionType = DIRECT | RELAY

record Quality =
  latency :: real
  bandwidth :: real
  reliability :: real

record PeerInfo =
  nodeId :: string
  state :: ConnectionState
  type :: ConnectionType
  publicKey :: "byte list"
  lastSeen :: int
  quality :: Quality
  supportedTypes :: "MessageType list"

text \<open>An entry of the \<open>connections\<close> map: an \<open>RTCPeerConnection\<close>, or a \<open>WebSocket\<close> with
  the flag \<open>readyState === WebSocket.OPEN\<close>.\<close>

datatype Connection = RTCPeerConnection | WebSocket bool

datatype ConnectionEvent =
    ConnectedEvent PeerInfo
  | DisconnectedEvent string string
  | MessageEvent Message PeerInfo
  | ErrorEvent string "string option"

text \<open>The data written to a relay socket: the envelope
  \<open>{type: 'message', from, to, payload}\<close> with the serialized message as payload.\<close>

datatype RelayData = RelayMessage string string wire

record KeyPair =
  publicKey :: "byte list"
  privateKey :: "byte list"

text \<open>The functions of the platform that the node calls: the digest, the key agreement
  (\<open>importKey\<close> twice and \<open>deriveBits\<close>; \<open>None\<close> when one of them throws), AES-GCM
  encryption under the derived key (\<open>None\<close> when it throws),
  \<open>crypto.getRandomValues\<close>, whose \<open>k\<close>-th draw of \<open>n\<close> bytes is \<open>randomValues k n\<close>, the
  conversion of a value that is not a number to a number, and the order in which the
  \<open>k\<close>-th sort with the comparator \<open>() => Math.random() - 0.5\<close> leaves a list of peers.\<close>

record Platform =
  sha256 :: "byte list \<Rightarrow> byte list"
  deriveBits :: "byte list \<Rightarrow> byte list \<Rightarrow> byte list option"
  aesGcmEncrypt :: "byte list \<Rightarrow> byte list \<Rightarrow> byte list \<Rightarrow> byte list option"
  randomValues :: "nat \<Rightarrow> nat \<Rightarrow> byte list"
  coerce :: "jsval \<Rightarrow> real option"
  shuffle :: "nat \<Rightarrow> PeerInfo list \<Rightarrow> PeerInfo list"

text \<open>The state of a \<open>WhispurrNode\<close>. \<open>heartbeatTimers\<close> lists the peers that have a timer;
  \<open>emitted\<close> records the events passed to \<open>emitEvent\<close> and \<open>sent\<close> the data passed to
  \<open>connection.send\<close>, oldest first; \<open>drawn\<close> counts the draws of random bytes.\<close>

record NodeState =
  nodeId :: string
  keyPair :: KeyPair
  peers :: "(string, PeerInfo) jsmap"
  connections :: "(string, Connection) jsmap"
  heartbeatTimers :: "string list"
  isShuttingDown :: bool
  emitted :: "ConnectionEvent list"
  sent :: "(string \<times> RelayData) list"
  drawn :: nat

text \<open>\<open>btoa\<close> on the binary string \<open>String.fromCharCode(...bytes)\<close>: base64 with padding.\<close>

definition base64Chars :: string where
  "base64Chars = ''ABCDEFGHIJKLMNOPQRSTUVWXYZabcdefghijklmnopqrstuvwxyz0123456789+/''"

definition b64 :: "nat \<Rightarrow> char" where
  "b64 n = base64Chars ! (n mod 64)"

fun btoa :: "byte list \<Rightarrow> string" where
  "btoa (a # b # c # rest) =
     (let x = unat a; y = unat b; z = unat c in
      [b64 (x div 4), b64 (x mod 4 * 16 + y div 16), b64 (y mod 16 * 4 + z div 64), b64 (z mod 64)]
      @ btoa rest)"
| "btoa [a, b] =
     (let x = unat a; y = unat b in
      [b64 (x div 4), b64 (x mod 4 * 16 + y div 16), b64 (y mod 16 * 4), CHR ''=''])"
| "btoa [a] = (let x = unat a in [b64 (x div 4), b64 (x mod 4 * 16), CHR ''='', CHR ''=''])"
| "btoa [] = []"

text \<open>\<open>encryptMessage\<close>: the shared secret, a fresh 12-byte IV, the AES-GCM ciphertext of
  the UTF-8 payload, and the base64 text of IV and ciphertext together. \<open>None\<close> when a
  call of the platform throws; the IV is drawn after the key agreement.\<close>

definition encryptMessage ::
  "Platform \<Rightarrow> NodeState \<Rightarrow> string \<Rightarrow> byte list \<Rightarrow> string option \<times> NodeState" where
  "encryptMessage pf s content recipientPublicKey =
     (case deriveBits pf (privateKey (keyPair s)) recipientPublicKey of
        None \<Rightarrow> (None, s)
      | Some sharedSecret \<Rightarrow>
          (let iv = randomValues pf (drawn s) 12;
               s' = s\<lparr>drawn := drawn s + 1\<rparr>
           in case aesGcmEncrypt pf sharedSecret iv (encode content) of
                None \<Rightarrow> (None, s')
              | Some encrypted \<Rightarrow> (Some (btoa (iv @ encrypted)), s')))"

text \<open>\<open>sendMessage(peerId, message)\<close> returns the success flag, the message (its payload
  is overwritten in place by the encrypted one) and the new state.\<close>

definition sendMessage ::
  "Platform \<Rightarrow> NodeState \<Rightarrow> string \<Rightarrow> Message \<Rightarrow> bool \<times> Message \<times> NodeState" where
  "sendMessage pf s peerId message =
     (case (mapGet (peers s) peerId, mapGet (connections s) peerId) of
        (Some peer, Some connection) \<Rightarrow>
          if state peer \<noteq> CONNECTED \<and> state peer \<noteq> RELAYING then (False, message, s)
          else
            (case encryptMessage pf s (payload message) (PeerInfo.publicKey peer) of
               (None, s') \<Rightarrow> (False, message, s')
             | (Some encryptedPayload, s') \<Rightarrow>
                 (let message' = message\<lparr>payload := encryptedPayload\<rparr>;
                      serialized = serializeMessage message'
                  in case connection of
                       RTCPeerConnection \<Rightarrow> (False, message', s')
                     | WebSocket isOpen \<Rightarrow>
                         if isOpen then
                           (True, message',
                            s'\<lparr>sent := sent s' @
                              [(peerId, RelayMessage (NodeState.nodeId s') peerId serialized)]\<rparr>)
                         else (False, message', s')))
      | _ \<Rightarrow> (False, message, s))"

text \<open>\<open>broadcastMessage\<close>: the peers in the order of the map; only those connected or
  relaying are sent to. The same message object goes to every peer.\<close>

fun broadcastLoop ::
  "Platform \<Rightarrow> (string \<times> PeerInfo) list \<Rightarrow> nat \<times> Message \<times> NodeState \<Rightarrow> nat \<times> Message \<times> NodeState"
  where
  "broadcastLoop pf [] acc = acc"
| "broadcastLoop pf ((peerId, peer) # rest) (successCount, message, s) =
     (if state peer = CONNECTED \<or> state peer = RELAYING then
        (case sendMessage pf s peerId message of
           (success, message', s') \<Rightarrow>
             broadcastLoop pf rest ((if success then successCount + 1 else successCount), message', s'))
      else broadcastLoop pf rest (successCount, message, s))"

definition broadcastMessage :: "Platform \<Rightarrow> NodeState \<Rightarrow> Message \<Rightarrow> nat \<times> Message \<times> NodeState" where
  "broadcastMessage pf s message = broadcastLoop pf (peers s) (0, message, s)"

definition emitEvent :: "ConnectionEvent \<Rightarrow> NodeState \<Rightarrow> NodeState" where
  "emitEvent event s = s\<lparr>emitted := emitted s @ [event]\<rparr>"

definition stopHeartbeat :: "string \<Rightarrow> NodeState \<Rightarrow> NodeState" where
  "stopHeartbeat peerId s = s\<lparr>heartbeatTimers := removeAll peerId (heartbeatTimers s)\<rparr>"

text \<open>\<open>handleDisconnection(peerId, reason)\<close>, called by \<open>dataChannel.onclose\<close>
  (\<open>Data channel closed\<close>), \<open>dataChannel.onerror\<close> (\<open>Data channel error\<close>), a failed
  heartbeat and \<open>disconnectFromPeer\<close>.\<close>

definition handleDisconnection :: "string \<Rightarrow> string \<Rightarrow> NodeState \<Rightarrow> NodeState" where
  "handleDisconnection peerId reason s =
     (let s1 = (case mapGet (peers s) peerId of
                  Some peer \<Rightarrow> s\<lparr>peers := mapSet peerId (peer\<lparr>state := DISCONNECTED\<rparr>) (peers s)\<rparr>
                | None \<Rightarrow> s);
          s2 = s1\<lparr>connections := mapDelete peerId (connections s1)\<rparr>;
          s3 = stopHeartbeat peerId s2
      in emitEvent (DisconnectedEvent peerId reason) s3)"

definition onclose :: "string \<Rightarrow> NodeState \<Rightarrow> NodeState" where
  "onclose peerId s = handleDisconnection peerId ''Data channel closed'' s"

definition onerror :: "string \<Rightarrow> NodeState \<Rightarrow> NodeState" where
  "onerror peerId s = handleDisconnection peerId ''Data channel error'' s"

definition disconnectFromPeer :: "string \<Rightarrow> NodeState \<Rightarrow> NodeState" where
  "disconnectFromPeer peerId s = handleDisconnection peerId ''Manual disconnect'' s"

definition getConnectedPeers :: "NodeState \<Rightarrow> PeerInfo list" where
  "getConnectedPeers s =
     filter (\<lambda>peer. state peer = CONNECTED \<or> state peer = RELAYING) (mapValues (peers s))"

text \<open>One tick of the timer that \<open>startHeartbeat(peerId)\<close> installs; \<open>now\<close> and \<open>uuid\<close> are
  read by \<open>createMessage\<close>.\<close>

definition heartbeatPing :: "Platform \<Rightarrow> int \<Rightarrow> string \<Rightarrow> NodeState \<Rightarrow> Message" where
  "heartbeatPing pf now uuid s =
     createMessage (sha256 pf) now uuid PING (NodeState.nodeId s) [] (noOptions\<lparr>Options.ttl := Some 10000\<rparr>)"

definition heartbeatTick :: "Platform \<Rightarrow> int \<Rightarrow> string \<Rightarrow> string \<Rightarrow> NodeState \<Rightarrow> NodeState" where
  "heartbeatTick pf now uuid peerId s =
     (if isShuttingDown s then s
      else case mapGet (peers s) peerId of
             None \<Rightarrow> stopHeartbeat peerId s
           | Some peer \<Rightarrow>
               if state peer \<noteq> CONNECTED then stopHeartbeat peerId s
               else (case sendMessage pf s peerId (heartbeatPing pf now uuid s) of
                       (success, pingMessage, s') \<Rightarrow>
                         if \<not> success then handleDisconnection peerId ''Heartbeat failed'' s'
                         else s'))"

section \<open>Orchestrator (Whispurr.ts)\<close>

text \<open>An extension, as far as the orchestrator reads it. Its \<open>handleMessage\<close> is code of
  the extension; the model records every call of it.\<close>

record WhispurrExtension =
  id :: string
  version :: string
  supportedTypes :: "MessageType list"

record GossipConfig =
  maxHops :: real
  gossipInterval :: int
  messageTTL :: int
  enableAutoPropagation :: bool
  maxConcurrentGossip :: int

record NetworkStats =
  connectedPeers :: nat
  messagesSent :: nat
  messagesReceived :: nat
  averageLatency :: real
  uptime :: int
  activeExtensions :: "string list"
  gossipEfficiency :: real

text \<open>The state of a \<open>Whispurr\<close>. \<open>handled\<close> lists the calls of \<open>extension.handleMessage\<close>
  (extension id, message, peer), oldest first; \<open>shuffled\<close> counts the random sorts.\<close>

record WhispurrState =
  node :: NodeState
  gossip :: GossipConfig
  extensions :: "(string, WhispurrExtension) jsmap"
  gossipQueue :: "Message list"
  messageHistory :: "(string, int) jsmap"
  stats :: NetworkStats
  handled :: "(string \<times> Message \<times> PeerInfo) list"
  shuffled :: nat

text \<open>\<open>routeMessageToExtensions\<close>: every registered extension whose \<open>supportedTypes\<close>
  include the type of the message is called, in the order of registration; an exception
  of the extension is caught.\<close>

definition routeMessageToExtensions :: "WhispurrState \<Rightarrow> Message \<Rightarrow> PeerInfo \<Rightarrow> WhispurrState" where
  "routeMessageToExtensions w message peer =
     w\<lparr>handled := handled w @
        map (\<lambda>extension. (id extension, message, peer))
          (filter (\<lambda>extension. msgType message \<in> set (WhispurrExtension.supportedTypes extension))
             (mapValues (extensions w)))\<rparr>"

definition checkResonance :: "string \<Rightarrow> real \<Rightarrow> bool" where
  "checkResonance i strength = (strength > 0.5)"

text \<open>\<open>handleResonanceMessage\<close> reads \<open>intent\<close> and \<open>strength\<close> off the message; on a message
  without them \<open>undefined > 0.5\<close> is false.\<close>

definition handleResonanceMessage :: "WhispurrState \<Rightarrow> Message \<Rightarrow> PeerInfo \<Rightarrow> WhispurrState" where
  "handleResonanceMessage w message peer =
     (case extra message of
        ResonanceExtra i strength \<Rightarrow>
          if checkResonance i strength then routeMessageToExtensions w message peer else w
      | _ \<Rightarrow> w)"

text \<open>\<open>selectGossipTargets(peers, count)\<close>\<close>

definition selectGossipTargets :: "Platform \<Rightarrow> nat \<Rightarrow> PeerInfo list \<Rightarrow> nat \<Rightarrow> PeerInfo list" where
  "selectGossipTargets pf k ps count =
     (let shuffled = shuffle pf k ps in take (min count (length shuffled)) shuffled)"

text \<open>The two loops of \<open>processGossipQueue\<close>: a message is sent to each of its targets in
  turn (\<open>sendMessage\<close> overwrites its payload every time), and \<open>stats.messagesSent\<close> counts
  the successes.\<close>

fun sendToTargets :: "Platform \<Rightarrow> PeerInfo list \<Rightarrow> Message \<Rightarrow> WhispurrState \<Rightarrow> WhispurrState" where
  "sendToTargets pf [] message w = w"
| "sendToTargets pf (peer # rest) message w =
     (case sendMessage pf (node w) (PeerInfo.nodeId peer) message of
        (success, message', node') \<Rightarrow>
          sendToTargets pf rest message'
            (w\<lparr>node := node',
               stats := (if success
                         then (stats w)\<lparr>messagesSent := messagesSent (stats w) + 1\<rparr>
                         else stats w)\<rparr>))"

fun propagate :: "Platform \<Rightarrow> PeerInfo list \<Rightarrow> Message list \<Rightarrow> WhispurrState \<Rightarrow> WhispurrState" where
  "propagate pf connectedPeers' [] w = w"
| "propagate pf connectedPeers' (message # rest) w =
     (let targetPeers = selectGossipTargets pf (shuffled w) connectedPeers' 3;
          w' = sendToTargets pf targetPeers message (w\<lparr>shuffled := shuffled w + 1\<rparr>)
      in propagate pf connectedPeers' rest w')"

text \<open>\<open>processGossipQueue\<close>; \<open>splice(0, n)\<close> takes the first \<open>n\<close> messages out of the queue
  (none for a negative \<open>n\<close>).\<close>

definition processGossipQueue :: "Platform \<Rightarrow> WhispurrState \<Rightarrow> WhispurrState" where
  "processGossipQueue pf w =
     (if gossipQueue w = [] then w
      else let connectedPeers' = getConnectedPeers (node w) in
        if connectedPeers' = [] then w
        else let n = nat (maxConcurrentGossip (gossip w));
                 messagesToProcess = take n (gossipQueue w)
             in propagate pf connectedPeers' messagesToProcess (w\<lparr>gossipQueue := drop n (gossipQueue w)\<rparr>))"

text \<open>\<open>handleGossipMessage\<close> returns the new state, the message as the call leaves it
  (\<open>seenBy\<close> and \<open>currentHops\<close> are updated in place) and the exception thrown, if any: on
  a message without \<open>seenBy\<close> the call \<open>broadcastMsg.seenBy.includes\<close> throws a \<open>TypeError\<close>
  (the comparison \<open>undefined >= undefined\<close> before it is false).\<close>

definition handleGossipMessage ::
  "Platform \<Rightarrow> WhispurrState \<Rightarrow> Message \<Rightarrow> PeerInfo \<Rightarrow>
   WhispurrState \<times> Message \<times> error option" where
  "handleGossipMessage pf w message peer =
     (case extra message of
        BroadcastExtra maxHops' currentHops seenBy \<Rightarrow>
          if currentHops \<ge> maxHops' then (w, message, None)
          else if NodeState.nodeId (node w) \<in> set seenBy then (w, message, None)
          else
            (let message' = message\<lparr>extra :=
                   BroadcastExtra maxHops' (currentHops + 1) (seenBy @ [NodeState.nodeId (node w)])\<rparr>;
                 w' = w\<lparr>gossipQueue := gossipQueue w @ [message']\<rparr>
             in (processGossipQueue pf w', message', None))
      | _ \<Rightarrow> (w, message, Some TypeError))"

text \<open>\<open>cleanupMessageHistory\<close> and \<open>handleIncomingMessage\<close>; \<open>now\<close> is \<open>Date.now()\<close>.\<close>

definition cleanupMessageHistory :: "int \<Rightarrow> WhispurrState \<Rightarrow> WhispurrState" where
  "cleanupMessageHistory now w =
     (let cutoff = now - messageTTL (gossip w) in
      w\<lparr>messageHistory := filter (\<lambda>(messageId, t). \<not> t < cutoff) (messageHistory w)\<rparr>)"

definition messageIdOf :: "Message \<Rightarrow> string" where
  "messageIdOf message = senderId message @ '':'' @ nonce message"

definition handleIncomingMessage ::
  "Platform \<Rightarrow> int \<Rightarrow> WhispurrState \<Rightarrow> Message \<Rightarrow> PeerInfo \<Rightarrow>
   WhispurrState \<times> Message \<times> error option" where
  "handleIncomingMessage pf now w message peer =
     (if isMessageExpired now message then (w, message, None)
      else let messageId = messageIdOf message in
        if mapHas (messageHistory w) messageId then (w, message, None)
        else
          (let w1 = w\<lparr>messageHistory := mapSet messageId now (messageHistory w)\<rparr>;
               w2 = cleanupMessageHistory now w1
           in case msgType message of
                BROADCAST \<Rightarrow> handleGossipMessage pf w2 message peer
              | RESONANCE \<Rightarrow> (handleResonanceMessage w2 message peer, message, None)
              | _ \<Rightarrow> (routeMessageToExtensions w2 message peer, message, None)))"

text \<open>The callback that \<open>setupEventHandlers\<close> registers with \<open>node.onEvent\<close>, on a
  \<open>message\<close> event and on the other events. The promise of \<open>handleIncomingMessage\<close> is not
  awaited, so an exception in it is not seen by the caller.\<close>

definition onMessageEvent ::
  "Platform \<Rightarrow> int \<Rightarrow> WhispurrState \<Rightarrow> Message \<Rightarrow> PeerInfo \<Rightarrow> WhispurrState \<times> Message" where
  "onMessageEvent pf now w message peer =
     (case handleIncomingMessage pf now
             (w\<lparr>stats := (stats w)\<lparr>messagesReceived := messagesReceived (stats w) + 1\<rparr>\<rparr>)
             message peer of
        (w', message', e) \<Rightarrow> (w', message'))"

definition onConnectionEvent :: "WhispurrState \<Rightarrow> WhispurrState" where
  "onConnectionEvent w =
     w\<lparr>stats := (stats w)\<lparr>connectedPeers := length (getConnectedPeers (node w))\<rparr>\<rparr>"

text \<open>The callbacks that \<open>setupMessageHandlers\<close> registers with \<open>node.onMessage\<close>, by the type
  of the message: a Pong for a Ping, \<open>handleGossipMessage\<close> for a Broadcast,
  \<open>handleResonanceMessage\<close> for a Resonance, \<open>routeMessageToExtensions\<close> for every other type.
  An exception is caught by the caller, \<open>WhispurrNode.handleMessage\<close>.\<close>

definition pongMessage :: "Platform \<Rightarrow> int \<Rightarrow> string \<Rightarrow> NodeState \<Rightarrow> Message" where
  "pongMessage pf now uuid s =
     createMessage (sha256 pf) now uuid PONG (NodeState.nodeId s) [] (noOptions\<lparr>Options.ttl := Some 10000\<rparr>)"

definition onTypedMessage ::
  "Platform \<Rightarrow> int \<Rightarrow> string \<Rightarrow> WhispurrState \<Rightarrow> Message \<Rightarrow> PeerInfo \<Rightarrow> WhispurrState" where
  "onTypedMessage pf now uuid w message peer =
     (case msgType message of
        PING \<Rightarrow>
          (case sendMessage pf (node w) (PeerInfo.nodeId peer) (pongMessage pf now uuid (node w)) of
             (success, pong, node') \<Rightarrow> w\<lparr>node := node'\<rparr>)
      | BROADCAST \<Rightarrow> fst (handleGossipMessage pf w message peer)
      | RESONANCE \<Rightarrow> handleResonanceMessage w message peer
      | _ \<Rightarrow> routeMessageToExtensions w message peer)"

text \<open>\<open>WhispurrNode.handleMessage\<close> with the callbacks of an initialized orchestrator: the
  peer's \<open>lastSeen\<close> is refreshed, the \<open>message\<close> event goes to the event callback, then the
  callback registered for the type of the message runs, on the message as the event
  callback left it. The calls are taken in program order, each to its end; \<open>sendMessage\<close>
  may overwrite the payload of a Broadcast that is propagated at once, which no later
  step of this function reads.\<close>

definition handleMessage ::
  "Platform \<Rightarrow> int \<Rightarrow> string \<Rightarrow> WhispurrState \<Rightarrow> Message \<Rightarrow> PeerInfo \<Rightarrow> WhispurrState" where
  "handleMessage pf now uuid w message peer =
     (let peer' = peer\<lparr>lastSeen := now\<rparr>;
          n1 = (node w)\<lparr>peers := mapSet (PeerInfo.nodeId peer') peer' (peers (node w))\<rparr>;
          n2 = emitEvent (MessageEvent message peer') n1
      in case onMessageEvent pf now (w\<lparr>node := n2\<rparr>) message peer' of
           (w1, message1) \<Rightarrow> onTypedMessage pf now uuid w1 message1 peer')"

text \<open>\<open>resonate(intent, strength)\<close> returns the number of peers that accepted the message,
  the message and the new state.\<close>

definition resonate ::
  "Platform \<Rightarrow> int \<Rightarrow> string \<Rightarrow> WhispurrState \<Rightarrow> string \<Rightarrow> real \<Rightarrow>
   nat \<times> Message \<times> WhispurrState" where
  "resonate pf now uuid w i strength =
     (let whisperTag' = generateWhisperTag (sha256 pf) i None;
          message = createMessage (sha256 pf) now uuid RESONANCE (NodeState.nodeId (node w)) []
                      (noOptions\<lparr>Options.intent := Some i, Options.whisperTag := Some whisperTag'\<rparr>)
      in case broadcastMessage pf (node w) message of
           (successCount, message', node') \<Rightarrow>
             (successCount, message',
              w\<lparr>node := node',
                stats := (stats w)\<lparr>messagesSent := messagesSent (stats w) + successCount\<rparr>\<rparr>))"

text \<open>The record that \<open>resonate\<close> builds, before \<open>broadcastMessage\<close> encrypts its payload.\<close>

definition resonanceRecord :: "Platform \<Rightarrow> int \<Rightarrow> string \<Rightarrow> WhispurrState \<Rightarrow> string \<Rightarrow> real \<Rightarrow> Message" where
  "resonanceRecord pf now uuid w i strength =
     createMessage (sha256 pf) now uuid RESONANCE (NodeState.nodeId (node w)) []
       (noOptions\<lparr>Options.intent := Some i,
          Options.whisperTag := Some (generateWhisperTag (sha256 pf) i None)\<rparr>)"

text \<open>\<open>registerExtension\<close> throws on an identifier that is registered already.\<close>

datatype registerError = AlreadyRegistered string

definition registerExtension :: "WhispurrExtension \<Rightarrow> WhispurrState \<Rightarrow> registerError + WhispurrState" where
  "registerExtension extension w =
     (if mapHas (extensions w) (id extension) then Inl (AlreadyRegistered (id extension))
      else Inr (w\<lparr>extensions := mapSet (id extension) extension (extensions w),
                 stats := (stats w)\<lparr>activeExtensions :=
                   activeExtensions (stats w) @ [id extension]\<rparr>\<rparr>))"

section \<open>Peer manager (src/peer/PeerManager.ts, PeerAddressing.ts)\<close>





text \<open>A transport is any object. The manager asks whether it has a \<open>close\<close> or a
  \<open>terminate\<close> function and calls it; the call may throw, and the promise that \<open>close\<close>
  returns may reject.\<close>

record Transport =
  hasClose :: bool
  hasTerminate :: bool
  closeThrows :: bool
  closeRejects :: bool
  terminateThrows :: bool

text \<open>The calls made on the transports of peers, by the node id of the peer.\<close>

datatype TransportCall =
    CloseCalled string int string
  | TerminateCalled string

text \<open>The \<open>PeerInfo\<close> of PeerAddressing.ts (an optional property that is absent is
  \<open>None\<close>) and the \<open>PeerConnection\<close> that extends it.\<close>

record PeerAddressInfo =
  nodeId :: string
  publicKey :: "byte list option"
  addresses :: "string list"
  lastSeen :: "int option"
  metadata :: "json option"

record PeerConnection = PeerAddressInfo +
  connectionId :: string
  connected :: bool
  lastPing :: "int option"
  latency :: "int option"
  connectionTime :: "int option"
  transport :: "Transport option"

text \<open>The events carry the peer object; it is recorded as it is when \<open>emit\<close> is called.\<close>

datatype PeerEvent =
    PeerUpdated PeerConnection
  | PeerAdded PeerConnection
  | PeerRemoved PeerConnection
  | PeerConnected PeerConnection
  | PeerDisconnected PeerConnection string
  | PeerError PeerConnection


text \<open>
  The state of a \<open>PeerManager\<close>. The \<open>PeerConnection\<close> objects are changed in place and are
  reached both from the table and from a \<open>disconnect\<close> that waits for \<open>close\<close>, so they
  live in a store: \<open>objects\<close> holds every object created, an object is named by its index
  there, and the table \<open>peers\<close> maps a node id to the index of its object. \<open>events\<close>
  records the calls of \<open>emit\<close> and \<open>transportCalls\<close> the calls on transports, oldest first.
  \<open>suspended\<close> holds the calls of \<open>disconnect\<close> that stand at
  \<open>await peer.transport.close(1000, reason)\<close>: the peer object, the reason, and whether the
  promise rejects.
\<close>

record PeerManagerState =
  nodeId :: string
  maxPeers :: int
  objects :: "PeerConnection list"
  peers :: "(string, nat) jsmap"
  isRunning :: bool
  events :: "PeerEvent list"
  transportCalls :: "TransportCall list"
  suspended :: "(nat \<times> string \<times> bool) list"














text \<open>Every object keeps its node id, and objects are only added to the store.\<close>

definition sameIds :: "PeerConnection list \<Rightarrow> PeerConnection list \<Rightarrow> bool" where
  "sameIds old new =
     (length old \<le> length new \<and>
      (\<forall>a < length old. PeerAddressInfo.nodeId (new ! a) = PeerAddressInfo.nodeId (old ! a)))"

text \<open>The peer table is keyed by the node id of its entries.\<close>

definition keyed :: "PeerConnection list \<Rightarrow> (string, nat) jsmap \<Rightarrow> bool" where
  "keyed objs m = list_all (\<lambda>(k, a). a < length objs \<and> PeerAddressInfo.nodeId (objs ! a) = k) m"



section \<open>Example values\<close>

text \<open>A stand-in digest with a 32-byte result, a key agreement and a cipher that always
  succeed, and constant random bytes: a platform on which the definitions can be run.\<close>

definition exampleDigest :: "byte list \<Rightarrow> byte list" where
  "exampleDigest bs =
     [of_nat (length bs), 1, 2, 3, 4, 5, 6, 7, 8, 9, 10, 11, 12, 13, 14, 15,
      16, 17, 18, 19, 20, 21, 22, 23, 24, 25, 26, 27, 28, 29, 30, 31]"

definition examplePlatform :: Platform where
  "examplePlatform = \<lparr>
     sha256 = exampleDigest,
     deriveBits = (\<lambda>priv pub. Some (exampleDigest (priv @ pub))),
     aesGcmEncrypt = (\<lambda>k iv plain. Some (plain @ take 16 (exampleDigest (k @ iv)))),
     randomValues = (\<lambda>k n. replicate n (of_nat k)),
     coerce = (\<lambda>v. None),
     shuffle = (\<lambda>k ps. rev ps)\<rparr>"

definition nodeA :: string where
  "nodeA = ''000102030405060708090a0b0c0d0eff:18bcfe56800''"

definition nodeB :: string where
  "nodeB = ''ffeeddccbbaa99887766554433221100:18bcfe56801''"

definition examplePeer :: "string \<Rightarrow> ConnectionState \<Rightarrow> PeerInfo" where
  "examplePeer peerId st = \<lparr>
     PeerInfo.nodeId = peerId, state = st, type = RELAY, PeerInfo.publicKey = [4, 1, 2],
     PeerInfo.lastSeen = 1700000000000,
     quality = \<lparr>Quality.latency = 100, bandwidth = 0.5, reliability = 0.8\<rparr>,
     PeerInfo.supportedTypes = messageTypeValues\<rparr>"

text \<open>Node A with the one peer B, connected over an open relay socket.\<close>

definition exampleNode :: NodeState where
  "exampleNode = \<lparr>
     NodeState.nodeId = nodeA,
     keyPair = \<lparr>KeyPair.publicKey = [4, 9, 9], privateKey = [48, 1]\<rparr>,
     NodeState.peers = [(nodeB, examplePeer nodeB CONNECTED)],
     connections = [(nodeB, WebSocket True)],
     heartbeatTimers = [nodeB],
     isShuttingDown = False,
     emitted = [],
     sent = [],
     drawn = 0\<rparr>"

text \<open>The heartbeat Ping of node A as \<open>createMessage\<close> returns it, and a Whisper from A
  to B with a non-empty payload.\<close>

definition examplePing :: Message where
  "examplePing =
     heartbeatPing examplePlatform 1700000000000 ''7c9e6679-7425-40de-944b-e07fc1f90ae7'' exampleNode"

definition exampleWhisper :: Message where
  "exampleWhisper =
     createMessage exampleDigest 1700000000000 ''16fd2706-8baf-433b-82eb-8c7fada847da'' WHISPER
       nodeA ''aGVsbG8='' (noOptions\<lparr>Options.targetId := Some nodeB\<rparr>)"

text \<open>An orchestrator on node A with one extension that handles Whisper and Resonance
  messages, a Whisper and a Broadcast from B as node A receives them, and the same
  orchestrator with no peer.\<close>

definition exampleExtension :: WhispurrExtension where
  "exampleExtension = \<lparr>id = ''ext-1'', WhispurrExtension.version = ''0.1.0'',
       WhispurrExtension.supportedTypes = [WHISPER, RESONANCE]\<rparr>"

definition exampleOrchestrator :: WhispurrState where
  "exampleOrchestrator = \<lparr>
     node = exampleNode,
     gossip = \<lparr>GossipConfig.maxHops = 10, gossipInterval = 5000, messageTTL = 300000,
       enableAutoPropagation = True, maxConcurrentGossip = 5\<rparr>,
     extensions = [(''ext-1'', exampleExtension)],
     gossipQueue = [],
     messageHistory = [],
     stats = \<lparr>connectedPeers = 1, messagesSent = 0, messagesReceived = 0, averageLatency = 0,
       uptime = 0, activeExtensions = [''ext-1''], gossipEfficiency = 0\<rparr>,
     handled = [],
     shuffled = 0\<rparr>"

definition exampleIsolated :: WhispurrState where
  "exampleIsolated =
     exampleOrchestrator\<lparr>node := exampleNode\<lparr>NodeState.peers := [], connections := [],
       heartbeatTimers := []\<rparr>\<rparr>"

definition receivedWhisper :: Message where
  "receivedWhisper =
     createMessage exampleDigest 1700000000000 ''16fd2706-8baf-433b-82eb-8c7fada847da'' WHISPER
       nodeB ''c2VjcmV0'' (noOptions\<lparr>Options.targetId := Some nodeA\<rparr>)"

definition receivedBroadcast :: "real \<Rightarrow> real \<Rightarrow> string list \<Rightarrow> Message" where
  "receivedBroadcast h c seen =
     (createMessage exampleDigest 1700000000000 ''9b2c1f9e-1d2a-4c5b-8e7f-3a4b5c6d7e8f'' BROADCAST
        nodeB ''aGVsbG8='' noOptions)\<lparr>extra := BroadcastExtra h c seen\<rparr>"

text \<open>The orchestrator of node B, with A as its connected peer and the same extension.\<close>

definition exampleReceiver :: WhispurrState where
  "exampleReceiver =
     exampleOrchestrator\<lparr>node := exampleNode\<lparr>NodeState.nodeId := nodeB,
       NodeState.peers := [(nodeA, examplePeer nodeA CONNECTED)],
       connections := [(nodeA, WebSocket True)], heartbeatTimers := [nodeA]\<rparr>\<rparr>"





section \<open>Properties of the node identifiers\<close>

lemma isLowerHex_hexDigit: "d < 16 \<Longrightarrow> isLowerHex (hexDigit d)"
  by (simp add: isLowerHex_def hexDigit_def)

lemma hexValue_hexDigit: "n < 16 \<Longrightarrow> hexValue (hexDigit n) = Some n"
  by (simp add: hexValue_def hexDigit_def)

lemma hexValue_lower: "isLowerHex c \<Longrightarrow> hexValue c \<noteq> None"
  by (auto simp: isLowerHex_def hexValue_def Let_def)

lemma hex_not_space: "isLowerHex c \<Longrightarrow> \<not> isSpace c"
  by (auto simp: isLowerHex_def isSpace_def Let_def)

lemma colon_not_hex: "\<not> isLowerHex (CHR '':'')"
  by (simp add: isLowerHex_def)

lemma zero_hex: "isLowerHex (CHR ''0'')"
  by (simp add: isLowerHex_def)

lemma natToString16_hex: "list_all isLowerHex (natToString16 n)"
proof (induction n rule: natToString16.induct)
  case (1 n)
  show ?case
  proof (cases "n < 16")
    case True
    then show ?thesis
      by (subst natToString16.simps) (simp add: isLowerHex_hexDigit)
  next
    case False
    with 1 show ?thesis
      by (subst natToString16.simps) (simp add: isLowerHex_hexDigit)
  qed
qed

lemma natToString16_nonempty: "natToString16 n \<noteq> []"
  by (subst natToString16.simps) simp

lemma natToString16_length: "n < 256 \<Longrightarrow> length (natToString16 n) \<le> 2"
proof -
  assume n: "n < 256"
  show ?thesis
  proof (cases "n < 16")
    case True
    then show ?thesis by (subst natToString16.simps) simp
  next
    case False
    from n have "n div 16 < 16" by simp
    then have "natToString16 (n div 16) = [hexDigit (n div 16)]"
      by (subst natToString16.simps) simp
    with False show ?thesis by (subst natToString16.simps) simp
  qed
qed

lemma byteHex_length: "length (padStart 2 (CHR ''0'') (toString16 (uint (b::byte)))) = 2"
proof -
  have "unat b < 2 ^ LENGTH(8)" by (rule unsigned_less)
  then have "unat b < 256" by simp
  then have "length (natToString16 (unat b)) \<le> 2" by (rule natToString16_length)
  moreover have "toString16 (uint b) = natToString16 (unat b)"
    by (simp add: toString16_def)
  ultimately show ?thesis by (simp add: padStart_def)
qed

lemma byteHex_hex: "list_all isLowerHex (padStart 2 (CHR ''0'') (toString16 (uint (b::byte))))"
proof -
  have "list_all isLowerHex (toString16 (uint b))"
    by (simp add: toString16_def natToString16_hex)
  then show ?thesis
    by (auto simp: padStart_def zero_hex list_all_iff)
qed

lemma bytesToHex_Nil: "bytesToHex [] = []"
  by (simp add: bytesToHex_def)

lemma bytesToHex_Cons:
  "bytesToHex (b # bs) = padStart 2 (CHR ''0'') (toString16 (uint b)) @ bytesToHex bs"
  by (simp add: bytesToHex_def)

lemma bytesToHex_length: "length (bytesToHex bs) = 2 * length bs"
  by (induction bs) (simp_all add: bytesToHex_Nil bytesToHex_Cons byteHex_length)

lemma bytesToHex_hex: "list_all isLowerHex (bytesToHex bs)"
  by (induction bs) (simp_all add: bytesToHex_Nil bytesToHex_Cons byteHex_hex)

lemma split_no_sep: "c \<notin> set a \<Longrightarrow> split c a = [a]"
  by (induction a) auto

lemma split_at_sep: "c \<notin> set a \<Longrightarrow> split c (a @ c # b) = a # split c b"
  by (induction a) auto

lemma split_nonempty: "split c s \<noteq> []"
  by (induction s) (auto split: list.splits)

lemma split_single: "split c s = [t] \<Longrightarrow> s = t"
  by (induction s arbitrary: t) (auto simp: split_nonempty split: if_splits list.splits)

lemma split_pair: "split c s = [e, t] \<Longrightarrow> s = e @ c # t"
proof (induction s arbitrary: e)
  case Nil
  then show ?case by simp
next
  case (Cons x xs)
  show ?case
  proof (cases "x = c")
    case True
    with Cons.prems have "e = []" and "split c xs = [t]" by simp_all
    with True show ?thesis by (simp add: split_single)
  next
    case False
    with Cons.prems obtain p where "e = x # p" and "split c xs = [p, t]"
      by (auto split: list.splits)
    with Cons.IH show ?thesis by simp
  qed
qed

lemma hex_no_colon: "list_all isLowerHex s \<Longrightarrow> CHR '':'' \<notin> set s"
  using colon_not_hex by (auto simp: list_all_iff)

lemma split_node_id:
  assumes "list_all isLowerHex e" and "list_all isLowerHex t"
  shows "split (CHR '':'') (e @ CHR '':'' # t) = [e, t]"
  using assms by (simp add: split_at_sep split_no_sep hex_no_colon)

lemma validateNodeId_compose:
  assumes "length e = 32" "list_all isLowerHex e" "t \<noteq> []" "list_all isLowerHex t"
  shows "validateNodeId (e @ CHR '':'' # t)"
  using assms
  by (simp add: validateNodeId_def testEntropy_def testTimestamp_def split_node_id)

lemma readHex_append:
  "list_all isLowerHex xs \<Longrightarrow> readHex acc (xs @ ys) = readHex (readHex acc xs) ys"
proof (induction xs arbitrary: acc)
  case Nil
  then show ?case by simp
next
  case (Cons x xs)
  then obtain d where "hexValue x = Some d"
    using hexValue_lower [of x] by auto
  with Cons show ?case by simp
qed

lemma readHex_natToString16: "readHex 0 (natToString16 n) = n"
proof (induction n rule: natToString16.induct)
  case (1 n)
  show ?case
  proof (cases "n < 16")
    case True
    then show ?thesis
      by (subst natToString16.simps) (simp add: hexValue_hexDigit)
  next
    case False
    then have "readHex 0 (natToString16 n)
        = readHex (readHex 0 (natToString16 (n div 16))) [hexDigit (n mod 16)]"
      by (subst natToString16.simps) (simp add: readHex_append natToString16_hex)
    also have "\<dots> = readHex (n div 16) [hexDigit (n mod 16)]"
      using 1 False by simp
    also have "\<dots> = n div 16 * 16 + n mod 16"
      by (simp add: hexValue_hexDigit)
    finally show ?thesis by simp
  qed
qed

lemma stripSign_hex: "list_all isLowerHex s \<Longrightarrow> stripSign s = (1, s)"
  by (cases s) (auto simp: isLowerHex_def Let_def)

lemma strip0x_hex: "list_all isLowerHex s \<Longrightarrow> strip0x s = s"
  by (cases s rule: strip0x.cases) (auto simp: isLowerHex_def Let_def)

lemma parseInt16_hex:
  assumes "s \<noteq> []" and "list_all isLowerHex s"
  shows "parseInt16 s = Some (int (readHex 0 s))"
proof -
  from assms obtain c cs where s: "s = c # cs" and c: "isLowerHex c"
    by (cases s) auto
  have d: "dropWhile isSpace s = s"
    using s c by (simp add: hex_not_space)
  have v: "hexValue c \<noteq> None" using c by (rule hexValue_lower)
  have "parseInt16 s =
      (case s of [] \<Rightarrow> None
       | c # cs \<Rightarrow> if hexValue c = None then None else Some (1 * int (readHex 0 s)))"
    using assms(2) by (simp add: parseInt16_def d stripSign_hex strip0x_hex)
  also have "\<dots> = Some (int (readHex 0 s))"
    using v by (simp add: s)
  finally show ?thesis .
qed

lemma parseInt16_natToString16: "parseInt16 (natToString16 n) = Some (int n)"
  by (simp add: parseInt16_hex natToString16_nonempty natToString16_hex readHex_natToString16)

lemmas eval_entropy =
  generateEphemeralNodeId_def bytesToHex_def padStart_def toString16_def hexDigit_def
  natToString16.simps char_of_def bit_Suc_0_iff validateNodeId_def testEntropy_def
  testTimestamp_def isLowerHex_def extractTimestamp_def parseInt16_def hexValue_def isSpace_def

text \<open>
  Claim C7. Every identifier that \<open>generateEphemeralNodeId\<close> builds from 16 entropy
  bytes and a non-negative clock value \<open>t\<close> passes \<open>validateNodeId\<close>, and
  \<open>extractTimestamp\<close> returns exactly \<open>t\<close> for it.
\<close>

theorem generated_node_id_round_trip:
  assumes "length entropy = 16" and "0 \<le> t"
  shows "validateNodeId (generateEphemeralNodeId entropy t) \<and>
         extractTimestamp (generateEphemeralNodeId entropy t) = Inr (Some t)"
proof -
  let ?e = "bytesToHex entropy" and ?t = "natToString16 (nat t)"
  have id: "generateEphemeralNodeId entropy t = ?e @ CHR '':'' # ?t"
    using assms(2) by (simp add: generateEphemeralNodeId_def toString16_def)
  have e: "length ?e = 32" "list_all isLowerHex ?e"
    using assms(1) by (simp_all add: bytesToHex_length bytesToHex_hex)
  have t: "?t \<noteq> []" "list_all isLowerHex ?t"
    by (simp_all add: natToString16_nonempty natToString16_hex)
  have v: "validateNodeId (?e @ CHR '':'' # ?t)"
    using e t by (rule validateNodeId_compose)
  have "split (CHR '':'') (?e @ CHR '':'' # ?t) = [?e, ?t]"
    using e(2) t(2) by (rule split_node_id)
  then have "extractTimestamp (?e @ CHR '':'' # ?t) = Inr (Some t)"
    using v assms(2) by (simp add: extractTimestamp_def parseInt16_natToString16)
  with v show ?thesis unfolding id by simp
qed

theorem generated_node_id_round_trip_witness:
  "length [0, 1, 2, 3, 4, 5, 6, 7, 8, 9, 10, 11, 12, 13, 14, 255 :: byte] = 16 \<and>
   (0::int) \<le> 1700000000000 \<and>
   generateEphemeralNodeId [0, 1, 2, 3, 4, 5, 6, 7, 8, 9, 10, 11, 12, 13, 14, 255] 1700000000000
     = ''000102030405060708090a0b0c0d0eff:18bcfe56800'' \<and>
   validateNodeId ''000102030405060708090a0b0c0d0eff:18bcfe56800'' \<and>
   extractTimestamp ''000102030405060708090a0b0c0d0eff:18bcfe56800'' = Inr (Some 1700000000000)"
proof -
  have g: "generateEphemeralNodeId [0, 1, 2, 3, 4, 5, 6, 7, 8, 9, 10, 11, 12, 13, 14, 255] 1700000000000
      = ''000102030405060708090a0b0c0d0eff:18bcfe56800''"
    by (simp add: eval_entropy)
  show ?thesis
    using generated_node_id_round_trip
      [of "[0, 1, 2, 3, 4, 5, 6, 7, 8, 9, 10, 11, 12, 13, 14, 255]" 1700000000000]
    unfolding g by simp
qed

text \<open>
  Claim C8. \<open>validateNodeId s\<close> holds exactly when \<open>s\<close> matches
  \<open>^[0-9a-f]{32}:[0-9a-f]+$\<close>: 32 lowercase hexadecimal characters, one colon, and a
  non-empty run of lowercase hexadecimal characters up to the end of the string.
\<close>

theorem validateNodeId_iff_pattern: "validateNodeId s = nodeIdPattern s"
proof
  assume v: "validateNodeId s"
  then have "length (split (CHR '':'') s) = 2"
    unfolding validateNodeId_def Let_def by (simp split: if_splits)
  then obtain e t where parts: "split (CHR '':'') s = [e, t]"
    by (auto simp: length_Suc_conv numeral_2_eq_2)
  with v have "testEntropy e" and "testTimestamp t"
    unfolding validateNodeId_def Let_def by (simp_all split: if_splits)
  moreover from parts have "s = e @ CHR '':'' # t" by (rule split_pair)
  ultimately show "nodeIdPattern s"
    unfolding nodeIdPattern_def testEntropy_def testTimestamp_def by blast
next
  assume "nodeIdPattern s"
  then show "validateNodeId s"
    unfolding nodeIdPattern_def using validateNodeId_compose by blast
qed

theorem validateNodeId_iff_pattern_witness:
  "validateNodeId ''000102030405060708090a0b0c0d0eff:18bcfe56800'' \<and>
   nodeIdPattern ''000102030405060708090a0b0c0d0eff:18bcfe56800'' \<and>
   \<not> validateNodeId ''000102030405060708090a0b0c0d0eff:18BC'' \<and>
   \<not> nodeIdPattern ''000102030405060708090a0b0c0d0eff:18BC'' \<and>
   \<not> validateNodeId ''000102030405060708090a0b0c0d0eff:18:bc'' \<and>
   \<not> nodeIdPattern ''000102030405060708090a0b0c0d0eff:18:bc''"
proof -
  have "validateNodeId ''000102030405060708090a0b0c0d0eff:18bcfe56800''"
    by (simp add: eval_entropy)
  moreover have "\<not> validateNodeId ''000102030405060708090a0b0c0d0eff:18BC''"
    by (simp add: eval_entropy)
  moreover have "\<not> validateNodeId ''000102030405060708090a0b0c0d0eff:18:bc''"
    by (simp add: eval_entropy)
  ultimately show ?thesis
    using validateNodeId_iff_pattern [of "''000102030405060708090a0b0c0d0eff:18bcfe56800''"]
      validateNodeId_iff_pattern [of "''000102030405060708090a0b0c0d0eff:18BC''"]
      validateNodeId_iff_pattern [of "''000102030405060708090a0b0c0d0eff:18:bc''"]
    by simp
qed

section \<open>Properties of the protocol\<close>

lemma typeString_inj: "typeString a = typeString b \<longleftrightarrow> a = b"
  by (cases a; cases b; simp)

lemma typeString_known: "JStr (typeString t) \<in> set (map (JStr \<circ> typeString) messageTypeValues)"
  by (cases t) (simp_all add: messageTypeValues_def)

lemma typeString_nonempty: "typeString t \<noteq> []"
  by (cases t) simp_all

lemma field_toJS_common:
  "field (toJS m) ''type'' = JStr (typeString (msgType m))"
  "field (toJS m) ''senderId'' = JStr (senderId m)"
  "field (toJS m) ''resonanceKey'' = JBytes (resonanceKey m)"
  "field (toJS m) ''whisperTag'' = JStr (Message.whisperTag m)"
  "field (toJS m) ''payload'' = JStr (payload m)"
  "field (toJS m) ''timestamp'' = JNum (timestamp m)"
  "field (toJS m) ''version'' = JStr (Message.version m)"
  "field (toJS m) ''ttl'' = JNum (Message.ttl m)"
  "field (toJS m) ''nonce'' = JStr (nonce m)"
  by (simp_all add: field_def mapGet_def toJS_def)

lemma field_toJS_extra:
  "field (toJS m) ''targetId'' = (case extra m of WhisperExtra t \<Rightarrow> optStr t | _ \<Rightarrow> JUndefined)"
  "field (toJS m) ''maxHops'' = (case extra m of BroadcastExtra h c s \<Rightarrow> JNum h | _ \<Rightarrow> JUndefined)"
  "field (toJS m) ''currentHops'' = (case extra m of BroadcastExtra h c s \<Rightarrow> JNum c | _ \<Rightarrow> JUndefined)"
  "field (toJS m) ''seenBy'' =
     (case extra m of BroadcastExtra h c s \<Rightarrow> JArr (map JStr s) | _ \<Rightarrow> JUndefined)"
  "field (toJS m) ''intent'' = (case extra m of ResonanceExtra i s \<Rightarrow> JStr i | _ \<Rightarrow> JUndefined)"
  "field (toJS m) ''strength'' = (case extra m of ResonanceExtra i s \<Rightarrow> JNum s | _ \<Rightarrow> JUndefined)"
  by (cases "extra m"; simp add: field_def mapGet_def toJS_def)+


lemma toJS_not_null: "toJS m \<noteq> JUndefined" "toJS m \<noteq> JNull"
  by (simp_all add: toJS_def)

lemma ofJson_extraJson:
  "kindFields k e \<Longrightarrow> map (\<lambda>(k, v). (k, ofJson v)) (extraJson e) = extraProps e"
  by (cases e) (auto simp: optStrJson_def optStr_def comp_def)

lemma extraProps_no_key:
  "map (\<lambda>(k', v). if k' = ''resonanceKey'' then (k', x) else (k', v)) (extraProps e) = extraProps e"
  by (cases e) simp_all

lemma floor_unsigned: "\<lfloor>unsigned (b::byte) :: real\<rfloor> = uint b"
  by (metis of_int_uint floor_of_int)

lemma unsigned_nonneg: "(0::real) \<le> unsigned (b::byte)"
  by (metis of_nat_unat of_nat_0_le_iff)

lemma toUint8_byte: "toUint8 co (JNum (unsigned (b::byte))) = b"
  by (simp add: toUint8_def toNumber_def floor_unsigned unsigned_nonneg)

lemma bytes_back:
  "map (toUint8 co \<circ> (ofJson \<circ> (\<lambda>b. JsonNum (unsigned b)))) bs = bs"
  by (induction bs) (simp_all add: toUint8_byte)

lemma deserialize_serialize:
  assumes "kindFields (msgType m) (extra m)"
  shows "deserializeMessage co (serializeMessage m) = Inr (toJS m)"
  using assms
  by (simp add: deserializeMessage_def serializeMessage_def field_def mapGet_def mapSet_def
      mapHas_def toJS_def ofJson_extraJson extraProps_no_key bytes_back)

lemmas validate_simps =
  field_toJS_common field_toJS_extra toJS_not_null pushIf_def messageTypeValues_def
  typeString_nonempty typeString_inj toNumber_def numIs_def optStr_def

lemma validate_toJS:
  assumes "wellFormed now m" and "truthyFields m"
  shows "validateMessage co now (toJS m) =
         Inr \<lparr>isValid = True, errors = [],
              warnings = pushIf (Message.version m \<noteq> PROTOCOL_VERSION) (VersionMismatch (JStr (Message.version m)))\<rparr>"
  using assms
  unfolding validateMessage_def Let_def wellFormed_def truthyFields_def
  by (cases "extra m") (auto simp add: validate_simps)

lemmas eval_protocol =
  createMessage_def noOptions_def orString_def orNumber_def orObject_def deriveResonanceKey_def
  generateWhisperTag_def encode_def PROTOCOL_VERSION_def

text \<open>
  Claim C6, amended. \<open>createMessage\<close> sets \<open>version\<close> to \<open>PROTOCOL_VERSION\<close>, that is
  \<open>1.0.0\<close>, \<open>ttl\<close> to \<open>options.ttl || 300000\<close>, \<open>resonanceKey\<close> to the resonance key of
  \<open>options.intent || 'default'\<close> and \<open>whisperTag\<close> to \<open>options.whisperTag\<close> or else the
  whisper tag generated from the same defaulted intent \<open>options.intent || 'default'\<close>, which
  is \<open>options.intent\<close> only when an intent is given and is not empty; a Broadcast starts
  with \<open>currentHops = 0\<close> and \<open>seenBy = [senderId]\<close>.
\<close>

theorem createMessage_common_fields:
  "Message.version (createMessage digest now uuid kind sender content options) = PROTOCOL_VERSION \<and>
   PROTOCOL_VERSION = ''1.0.0'' \<and>
   Message.ttl (createMessage digest now uuid kind sender content options)
     = (case Options.ttl options of None \<Rightarrow> 300000 | Some x \<Rightarrow> if x = 0 then 300000 else x) \<and>
   resonanceKey (createMessage digest now uuid kind sender content options)
     = deriveResonanceKey digest (orString (Options.intent options) ''default'') \<and>
   Message.whisperTag (createMessage digest now uuid kind sender content options)
     = orString (Options.whisperTag options)
         (generateWhisperTag digest (orString (Options.intent options) ''default'') None) \<and>
   (\<forall>i. Options.intent options = Some i \<and> i \<noteq> [] \<longrightarrow>
      resonanceKey (createMessage digest now uuid kind sender content options)
        = deriveResonanceKey digest i \<and>
      Message.whisperTag (createMessage digest now uuid kind sender content options)
        = orString (Options.whisperTag options) (generateWhisperTag digest i None)) \<and>
   (kind = BROADCAST \<longrightarrow>
      extra (createMessage digest now uuid kind sender content options)
        = BroadcastExtra (orNumber (Options.maxHops options) 10) 0 [sender])"
  by (cases kind) (auto simp: createMessage_def Let_def orNumber_def orString_def PROTOCOL_VERSION_def)

theorem createMessage_common_fields_witness:
  "Message.version (createMessage (\<lambda>bs. replicate 32 7) 1700000000000 ''u-1'' BROADCAST ''node-a'' ''hi''
     (noOptions\<lparr>Options.intent := Some ''chat'', Options.ttl := Some 5000\<rparr>)) = ''1.0.0'' \<and>
   Message.ttl (createMessage (\<lambda>bs. replicate 32 7) 1700000000000 ''u-1'' BROADCAST ''node-a'' ''hi''
     (noOptions\<lparr>Options.intent := Some ''chat'', Options.ttl := Some 5000\<rparr>)) = 5000 \<and>
   resonanceKey (createMessage (\<lambda>bs. replicate 32 7) 1700000000000 ''u-1'' BROADCAST ''node-a'' ''hi''
     (noOptions\<lparr>Options.intent := Some ''chat'', Options.ttl := Some 5000\<rparr>))
     = deriveResonanceKey (\<lambda>bs. replicate 32 7) ''chat'' \<and>
   Message.whisperTag (createMessage (\<lambda>bs. replicate 32 7) 1700000000000 ''u-1'' BROADCAST ''node-a'' ''hi''
     (noOptions\<lparr>Options.intent := Some ''chat'', Options.ttl := Some 5000\<rparr>))
     = generateWhisperTag (\<lambda>bs. replicate 32 7) ''chat'' None \<and>
   extra (createMessage (\<lambda>bs. replicate 32 7) 1700000000000 ''u-1'' BROADCAST ''node-a'' ''hi''
     (noOptions\<lparr>Options.intent := Some ''chat'', Options.ttl := Some 5000\<rparr>))
     = BroadcastExtra 10 0 [''node-a'']"
  using createMessage_common_fields [of "\<lambda>bs. replicate 32 7" 1700000000000 "''u-1''" BROADCAST
      "''node-a''" "''hi''" "noOptions\<lparr>Options.intent := Some ''chat'', Options.ttl := Some 5000\<rparr>"]
  by (simp add: noOptions_def orString_def orNumber_def PROTOCOL_VERSION_def)

text \<open>
  The claim as stated, with the tag generated from \<open>options.intent\<close>, fails when the
  intent is empty or absent, as it is for the heartbeat Ping: the tag is then that of
  \<open>'default'\<close>, not that of the empty intent.
\<close>

theorem createMessage_common_fields_counterexample:
  "Message.whisperTag (createMessage exampleDigest 1700000000000 ''7c9e6679-7425-40de-944b-e07fc1f90ae7''
     PING nodeA [] (noOptions\<lparr>Options.intent := Some [], Options.ttl := Some 10000\<rparr>))
     = ''0701020304050607'' \<and>
   Message.whisperTag (createMessage exampleDigest 1700000000000 ''7c9e6679-7425-40de-944b-e07fc1f90ae7''
     PING nodeA [] (noOptions\<lparr>Options.ttl := Some 10000\<rparr>))
     = ''0701020304050607'' \<and>
   generateWhisperTag exampleDigest ''default'' None = ''0701020304050607'' \<and>
   generateWhisperTag exampleDigest [] None = ''0001020304050607'' \<and>
   Options.whisperTag (noOptions\<lparr>Options.intent := Some [], Options.ttl := Some 10000\<rparr>) = None"
  by (simp add: eval_protocol eval_entropy exampleDigest_def)

lemma validAtReceiver_wellFormed:
  assumes "wellFormed now m" and "truthyFields m"
  shows "validAtReceiver co now (serializeMessage m)"
proof -
  from assms(1) have k: "kindFields (msgType m) (extra m)"
    by (simp add: wellFormed_def)
  show ?thesis
    by (simp add: validAtReceiver_def deserialize_serialize [OF k] validate_toJS [OF assms])
qed

text \<open>
  Claim C1, as amended. For every message that is well-formed per the data model and fresh,
  and whose fields read by the required-field tests are non-empty strings and non-zero
  numbers, \<open>deserializeMessage (serializeMessage m)\<close> is the object \<open>m\<close> is at run time,
  with \<open>resonanceKey\<close> a byte array again, and \<open>validateMessage\<close> accepts it.
\<close>

theorem serialize_round_trip_valid:
  assumes "wellFormed now m" and "truthyFields m"
  shows "deserializeMessage co (serializeMessage m) = Inr (toJS m) \<and>
         field (toJS m) ''resonanceKey'' = JBytes (resonanceKey m) \<and>
         (\<exists>r. validateMessage co now (toJS m) = Inr r \<and> isValid r \<and> errors r = []) \<and>
         validAtReceiver co now (serializeMessage m)"
proof -
  from assms(1) have k: "kindFields (msgType m) (extra m)"
    by (simp add: wellFormed_def)
  have d: "deserializeMessage co (serializeMessage m) = Inr (toJS m)"
    using k by (rule deserialize_serialize)
  have v: "validateMessage co now (toJS m) =
      Inr \<lparr>isValid = True, errors = [],
           warnings = pushIf (Message.version m \<noteq> PROTOCOL_VERSION) (VersionMismatch (JStr (Message.version m)))\<rparr>"
    using assms by (rule validate_toJS)
  show ?thesis
    by (simp add: d v validAtReceiver_def field_toJS_common)
qed

lemmas eval_examples =
  exampleWhisper_def examplePing_def heartbeatPing_def exampleNode_def examplePlatform_def
  exampleDigest_def examplePeer_def nodeA_def nodeB_def

lemma exampleWhisper_wellFormed:
  "wellFormed 1700000000250 exampleWhisper" "truthyFields exampleWhisper"
  by (simp_all add: wellFormed_def truthyFields_def eval_examples eval_protocol eval_entropy)

theorem serialize_round_trip_valid_witness:
  "wellFormed 1700000000250 exampleWhisper \<and> truthyFields exampleWhisper \<and>
   deserializeMessage (\<lambda>v. None) (serializeMessage exampleWhisper) = Inr (toJS exampleWhisper) \<and>
   field (toJS exampleWhisper) ''resonanceKey'' = JBytes (resonanceKey exampleWhisper) \<and>
   (\<exists>r. validateMessage (\<lambda>v. None) 1700000000250 (toJS exampleWhisper) = Inr r \<and> isValid r \<and>
        errors r = []) \<and>
   validAtReceiver (\<lambda>v. None) 1700000000250 (serializeMessage exampleWhisper)"
  using serialize_round_trip_valid [OF exampleWhisper_wellFormed, of "\<lambda>v. None"]
    exampleWhisper_wellFormed
  by simp

lemma validate_missing_payload:
  assumes "message \<noteq> JUndefined" "message \<noteq> JNull" "\<not> truthy (field message ''payload'')"
  shows "\<exists>r. validateMessage co now message = Inr r \<and> \<not> isValid r \<and> MissingPayload \<in> set (errors r)"
  using assms unfolding validateMessage_def Let_def by (simp add: pushIf_def)

lemma validate_missing_ttl:
  assumes "message \<noteq> JUndefined" "message \<noteq> JNull" "\<not> truthy (field message ''ttl'')"
  shows "\<exists>r. validateMessage co now message = Inr r \<and> \<not> isValid r \<and> MissingTTL \<in> set (errors r)"
  using assms unfolding validateMessage_def Let_def by (simp add: pushIf_def)

lemma validate_missing_timestamp:
  assumes "message \<noteq> JUndefined" "message \<noteq> JNull" "\<not> truthy (field message ''timestamp'')"
  shows "\<exists>r. validateMessage co now message = Inr r \<and> \<not> isValid r \<and> MissingTimestamp \<in> set (errors r)"
  using assms unfolding validateMessage_def Let_def by (simp add: pushIf_def)

lemma empty_payload_invalid:
  assumes "kindFields (msgType m) (extra m)" and "payload m = []"
  shows "\<not> validAtReceiver co now (serializeMessage m)"
    and "\<exists>r. validateMessage co now (toJS m) = Inr r \<and> \<not> isValid r \<and> MissingPayload \<in> set (errors r)"
proof -
  have p: "\<not> truthy (field (toJS m) ''payload'')"
    using assms(2) by (simp add: field_toJS_common)
  show r: "\<exists>r. validateMessage co now (toJS m) = Inr r \<and> \<not> isValid r \<and> MissingPayload \<in> set (errors r)"
    using toJS_not_null p by (rule validate_missing_payload)
  then show "\<not> validAtReceiver co now (serializeMessage m)"
    by (auto simp: validAtReceiver_def deserialize_serialize [OF assms(1)])
qed

lemma examplePing_facts:
  "msgType examplePing = PING" "extra examplePing = NoExtra" "payload examplePing = []"
  "Message.ttl examplePing = 10000" "timestamp examplePing = 1700000000000"
  by (simp_all add: eval_examples eval_protocol)

text \<open>
  The claim as stated fails on the heartbeat Ping as \<open>createMessage\<close> returns it: every
  field is present and the message is fresh, yet the empty payload makes it invalid.
\<close>

theorem serialize_round_trip_valid_counterexample:
  "wellFormed 1700000000250 examplePing \<and>
   deserializeMessage (\<lambda>v. None) (serializeMessage examplePing) = Inr (toJS examplePing) \<and>
   (\<exists>r. validateMessage (\<lambda>v. None) 1700000000250 (toJS examplePing) = Inr r \<and> \<not> isValid r \<and>
        MissingPayload \<in> set (errors r)) \<and>
   \<not> validAtReceiver (\<lambda>v. None) 1700000000250 (serializeMessage examplePing)"
proof -
  have k: "kindFields (msgType examplePing) (extra examplePing)"
    by (simp add: examplePing_facts)
  have "wellFormed 1700000000250 examplePing"
    by (simp add: wellFormed_def examplePing_facts)
  with k show ?thesis
    using empty_payload_invalid [OF k examplePing_facts(3)] deserialize_serialize [OF k]
    by simp
qed

section \<open>Properties of the connection manager\<close>

lemmas eval_maps = mapGet_def mapHas_def mapSet_def mapDelete_def mapValues_def

lemma mapGet_mapSet_same: "mapHas m k \<Longrightarrow> mapGet (mapSet k v m) k = Some v"
  by (induction m) (auto simp: mapGet_def mapSet_def mapHas_def)

lemma mapGet_mapHas: "mapGet m k = Some v \<Longrightarrow> mapHas m k"
  by (auto simp: mapGet_def mapHas_def dest: map_of_SomeD intro: rev_image_eqI)

lemma keys_mapSet: "mapHas m k \<Longrightarrow> map fst (mapSet k v m) = map fst m"
  by (induction m) (auto simp: mapSet_def mapHas_def)

lemma entries_mapSet: "mapHas m k \<Longrightarrow> (k, p) \<in> set (mapSet k v m) \<Longrightarrow> p = v"
  by (auto simp: mapSet_def mapHas_def split: if_splits)

lemma mapHas_mapDelete: "\<not> mapHas (mapDelete k m) k"
  by (auto simp: mapHas_def mapDelete_def)

lemma mapGet_None_entries: "mapGet m k = None \<Longrightarrow> (k, p) \<notin> set m"
  by (auto simp: mapGet_def map_of_eq_None_iff intro: rev_image_eqI)

text \<open>
  Claim C5, as amended. After \<open>handleDisconnection\<close> (run on a transport error, on the
  closing of the channel, on a failed heartbeat and on a manual disconnect) the peer's
  record is still in the peer table, under the same key and at the same place, with state
  \<open>DISCONNECTED\<close>; the connection handle and the heartbeat timer of the peer are gone, and
  the \<open>disconnected\<close> event is the last one emitted.
\<close>

theorem disconnection_keeps_peer_record:
  "map fst (NodeState.peers (handleDisconnection peerId reason s)) = map fst (NodeState.peers s) \<and>
   (\<forall>peer. mapGet (NodeState.peers s) peerId = Some peer \<longrightarrow>
      mapGet (NodeState.peers (handleDisconnection peerId reason s)) peerId
        = Some (peer\<lparr>state := DISCONNECTED\<rparr>)) \<and>
   (\<forall>p. (peerId, p) \<in> set (NodeState.peers (handleDisconnection peerId reason s)) \<longrightarrow>
      state p = DISCONNECTED) \<and>
   \<not> mapHas (connections (handleDisconnection peerId reason s)) peerId \<and>
   peerId \<notin> set (heartbeatTimers (handleDisconnection peerId reason s)) \<and>
   emitted (handleDisconnection peerId reason s) = emitted s @ [DisconnectedEvent peerId reason]"
proof (cases "mapGet (NodeState.peers s) peerId")
  case None
  then show ?thesis
    by (simp add: handleDisconnection_def Let_def emitEvent_def stopHeartbeat_def
        mapHas_mapDelete mapGet_None_entries)
next
  case (Some peer)
  then have h: "mapHas (NodeState.peers s) peerId" by (rule mapGet_mapHas)
  have e: "\<And>p. (peerId, p) \<in> set (mapSet peerId (peer\<lparr>state := DISCONNECTED\<rparr>) (NodeState.peers s)) \<Longrightarrow>
      state p = DISCONNECTED"
    using entries_mapSet [OF h] by fastforce
  show ?thesis
    using Some h e
    by (simp add: handleDisconnection_def Let_def emitEvent_def stopHeartbeat_def
        mapHas_mapDelete mapGet_mapSet_same keys_mapSet)
qed

theorem disconnection_keeps_peer_record_witness:
  "mapGet (NodeState.peers exampleNode) nodeB = Some (examplePeer nodeB CONNECTED) \<and>
   map fst (NodeState.peers (handleDisconnection nodeB ''Data channel error'' exampleNode)) = [nodeB] \<and>
   mapGet (NodeState.peers (handleDisconnection nodeB ''Data channel error'' exampleNode)) nodeB
     = Some (examplePeer nodeB DISCONNECTED) \<and>
   \<not> mapHas (connections (handleDisconnection nodeB ''Data channel error'' exampleNode)) nodeB \<and>
   nodeB \<notin> set (heartbeatTimers (handleDisconnection nodeB ''Data channel error'' exampleNode)) \<and>
   emitted (handleDisconnection nodeB ''Data channel error'' exampleNode)
     = [DisconnectedEvent nodeB ''Data channel error'']"
proof -
  have g: "mapGet (NodeState.peers exampleNode) nodeB = Some (examplePeer nodeB CONNECTED)"
    by (simp add: exampleNode_def mapGet_def)
  have p: "(examplePeer nodeB CONNECTED)\<lparr>state := DISCONNECTED\<rparr> = examplePeer nodeB DISCONNECTED"
    by (simp add: examplePeer_def)
  have k: "map fst (NodeState.peers exampleNode) = [nodeB]" "emitted exampleNode = []"
    by (simp_all add: exampleNode_def)
  show ?thesis
    using disconnection_keeps_peer_record [of nodeB "''Data channel error''" exampleNode] g p k
    by simp
qed

text \<open>
  The claim as stated fails: after a transport error on the channel to the connected peer
  B, with the \<open>disconnected\<close> event emitted, B is still in the peer table, and its state is
  \<open>DISCONNECTED\<close>, not \<open>ERROR\<close>.
\<close>

theorem disconnection_keeps_peer_record_counterexample:
  "emitted (onerror nodeB exampleNode) = [DisconnectedEvent nodeB ''Data channel error''] \<and>
   mapHas (NodeState.peers (onerror nodeB exampleNode)) nodeB \<and>
   map (\<lambda>(k, p). (k, state p)) (NodeState.peers (onerror nodeB exampleNode)) = [(nodeB, DISCONNECTED)]"
  by (simp add: onerror_def handleDisconnection_def Let_def emitEvent_def stopHeartbeat_def
      exampleNode_def examplePeer_def mapGet_def mapSet_def mapHas_def mapDelete_def nodeB_def)

section \<open>Empty payloads and the encrypted envelope\<close>

lemma btoa_nonempty: "bs \<noteq> [] \<Longrightarrow> btoa bs \<noteq> []"
  by (cases bs rule: btoa.cases) (simp_all add: Let_def)

lemma sendMessage_success:
  assumes "sendMessage pf s peerId m = (True, m', s')"
  shows "\<exists>peer secret encrypted.
           mapGet (NodeState.peers s) peerId = Some peer \<and>
           deriveBits pf (privateKey (keyPair s)) (PeerInfo.publicKey peer) = Some secret \<and>
           aesGcmEncrypt pf secret (randomValues pf (drawn s) 12) (encode (payload m)) = Some encrypted \<and>
           m' = m\<lparr>payload := btoa (randomValues pf (drawn s) 12 @ encrypted)\<rparr> \<and>
           sent s' = sent s @ [(peerId, RelayMessage (NodeState.nodeId s) peerId (serializeMessage m'))]"
  using assms unfolding sendMessage_def encryptMessage_def Let_def
  by (auto split: option.splits if_splits Connection.splits prod.splits)

lemma sendMessage_keeps_fields:
  "(fst (snd (sendMessage pf s peerId m)))\<lparr>payload := x\<rparr> = m\<lparr>payload := x\<rparr>"
  unfolding sendMessage_def encryptMessage_def Let_def
  by (auto split: option.splits if_splits Connection.splits prod.splits)

lemma field_of_non_object:
  "field message k = JStr x \<Longrightarrow> message \<noteq> JUndefined \<and> message \<noteq> JNull"
  "field message k = JNum y \<Longrightarrow> message \<noteq> JUndefined \<and> message \<noteq> JNull"
  by (auto simp: field_def)

lemma wire_record_valid:
  assumes send: "sendMessage pf s peerId m = (True, m', s')"
    and iv: "randomValues pf (drawn s) 12 \<noteq> []"
    and wf: "wellFormed now m"
    and tf: "truthyFields (m\<lparr>payload := ''x''\<rparr>)"
  shows "payload m' \<noteq> []"
    and "sent s' = sent s @ [(peerId, RelayMessage (NodeState.nodeId s) peerId (serializeMessage m'))]"
    and "validAtReceiver co now (serializeMessage m')"
proof -
  from sendMessage_success [OF send] obtain encrypted where
    m': "m' = m\<lparr>payload := btoa (randomValues pf (drawn s) 12 @ encrypted)\<rparr>" and
    s': "sent s' = sent s @ [(peerId, RelayMessage (NodeState.nodeId s) peerId (serializeMessage m'))]"
    by blast
  from iv have "btoa (randomValues pf (drawn s) 12 @ encrypted) \<noteq> []"
    by (simp add: btoa_nonempty)
  with m' show p: "payload m' \<noteq> []" by simp
  show "sent s' = sent s @ [(peerId, RelayMessage (NodeState.nodeId s) peerId (serializeMessage m'))]"
    by (rule s')
  have "wellFormed now m'" using wf m' by (simp add: wellFormed_def)
  moreover have "truthyFields m'" using tf p m' by (simp add: truthyFields_def)
  ultimately show "validAtReceiver co now (serializeMessage m')"
    by (rule validAtReceiver_wellFormed)
qed

lemma whisperTag_nonempty: "h \<noteq> [] \<Longrightarrow> bytesToHex (take 8 h) \<noteq> []"
proof -
  assume "h \<noteq> []"
  then have "0 < length (take 8 h)" by simp
  then have "0 < length (bytesToHex (take 8 h))" by (simp add: bytesToHex_length)
  then show ?thesis by auto
qed

lemma empty_message_facts:
  assumes "m = createMessage digest t0 uuid kind sender [] (noOptions\<lparr>Options.ttl := Some 10000\<rparr>)"
    and "kind = PING \<or> kind = PONG"
  shows "payload m = []" and "kindFields (msgType m) (extra m)"
    and "of_int now - of_int t0 \<le> (10000::real) \<Longrightarrow> wellFormed now m"
    and "sender \<noteq> [] \<Longrightarrow> uuid \<noteq> [] \<Longrightarrow> digest (encode ''default'') \<noteq> [] \<Longrightarrow> t0 \<noteq> 0 \<Longrightarrow>
         truthyFields (m\<lparr>payload := ''x''\<rparr>)"
  using assms
  by (auto simp: eval_protocol wellFormed_def truthyFields_def whisperTag_nonempty Let_def)

text \<open>
  Claim C10, as amended. \<open>validateMessage\<close> rejects, with the missing-field error of the
  field, every message whose payload is the empty string, whose ttl is 0 or whose timestamp
  is 0. The heartbeat Ping and the Pong are built with an empty payload and are invalid as
  built; but \<open>sendMessage\<close> overwrites the payload with the base64 text of IV and
  ciphertext, which is not empty, before it serializes, so the record that reaches a
  receiver has a payload, and it passes the receiver's validation while it is fresh.
\<close>

theorem empty_payload_rejected_before_encryption:
  "(field message ''payload'' = JStr [] \<longrightarrow>
      (\<exists>r. validateMessage co now message = Inr r \<and> \<not> isValid r \<and> MissingPayload \<in> set (errors r))) \<and>
   (field message ''ttl'' = JNum 0 \<longrightarrow>
      (\<exists>r. validateMessage co now message = Inr r \<and> \<not> isValid r \<and> MissingTTL \<in> set (errors r))) \<and>
   (field message ''timestamp'' = JNum 0 \<longrightarrow>
      (\<exists>r. validateMessage co now message = Inr r \<and> \<not> isValid r \<and> MissingTimestamp \<in> set (errors r))) \<and>
   (ping = heartbeatPing pf t0 uuid s \<or> ping = pongMessage pf t0 uuid s \<longrightarrow>
      payload ping = [] \<and> \<not> validAtReceiver co now (serializeMessage ping) \<and>
      (\<forall>peerId m' s'.
         sendMessage pf s peerId ping = (True, m', s') \<and> randomValues pf (drawn s) 12 \<noteq> [] \<longrightarrow>
           payload m' \<noteq> [] \<and>
           sent s' = sent s @ [(peerId, RelayMessage (NodeState.nodeId s) peerId (serializeMessage m'))] \<and>
           (NodeState.nodeId s \<noteq> [] \<and> uuid \<noteq> [] \<and> sha256 pf (encode ''default'') \<noteq> [] \<and>
            t0 \<noteq> 0 \<and> now - t0 \<le> 10000 \<longrightarrow>
              validAtReceiver co now (serializeMessage m'))))"
proof -
  have a: "field message ''payload'' = JStr [] \<longrightarrow>
      (\<exists>r. validateMessage co now message = Inr r \<and> \<not> isValid r \<and> MissingPayload \<in> set (errors r))"
    using validate_missing_payload [of message co now] field_of_non_object(1) [of message "''payload''" "[]"]
    by auto
  have b: "field message ''ttl'' = JNum 0 \<longrightarrow>
      (\<exists>r. validateMessage co now message = Inr r \<and> \<not> isValid r \<and> MissingTTL \<in> set (errors r))"
    using validate_missing_ttl [of message co now] field_of_non_object(2) [of message "''ttl''" 0]
    by auto
  have c: "field message ''timestamp'' = JNum 0 \<longrightarrow>
      (\<exists>r. validateMessage co now message = Inr r \<and> \<not> isValid r \<and> MissingTimestamp \<in> set (errors r))"
    using validate_missing_timestamp [of message co now]
      field_of_non_object(2) [of message "''timestamp''" 0]
    by auto
  have d: "payload ping = [] \<and> \<not> validAtReceiver co now (serializeMessage ping) \<and>
      (\<forall>peerId m' s'.
         sendMessage pf s peerId ping = (True, m', s') \<and> randomValues pf (drawn s) 12 \<noteq> [] \<longrightarrow>
           payload m' \<noteq> [] \<and>
           sent s' = sent s @ [(peerId, RelayMessage (NodeState.nodeId s) peerId (serializeMessage m'))] \<and>
           (NodeState.nodeId s \<noteq> [] \<and> uuid \<noteq> [] \<and> sha256 pf (encode ''default'') \<noteq> [] \<and>
            t0 \<noteq> 0 \<and> now - t0 \<le> 10000 \<longrightarrow>
              validAtReceiver co now (serializeMessage m')))"
    if "ping = heartbeatPing pf t0 uuid s \<or> ping = pongMessage pf t0 uuid s"
  proof -
    from that obtain kind where
      ping: "ping = createMessage (sha256 pf) t0 uuid kind (NodeState.nodeId s) []
                      (noOptions\<lparr>Options.ttl := Some 10000\<rparr>)"
      and kind: "kind = PING \<or> kind = PONG"
      by (auto simp: heartbeatPing_def pongMessage_def)
    note facts = empty_message_facts [OF ping kind]
    have p: "payload ping = []" by (rule facts(1))
    have n: "\<not> validAtReceiver co now (serializeMessage ping)"
      using facts(2) p by (rule empty_payload_invalid(1))
    have w: "payload m' \<noteq> [] \<and>
           sent s' = sent s @ [(peerId, RelayMessage (NodeState.nodeId s) peerId (serializeMessage m'))] \<and>
           (NodeState.nodeId s \<noteq> [] \<and> uuid \<noteq> [] \<and> sha256 pf (encode ''default'') \<noteq> [] \<and>
            t0 \<noteq> 0 \<and> now - t0 \<le> 10000 \<longrightarrow>
              validAtReceiver co now (serializeMessage m'))"
      if send: "sendMessage pf s peerId ping = (True, m', s')"
        and iv: "randomValues pf (drawn s) 12 \<noteq> []" for peerId m' s'
    proof -
      from sendMessage_success [OF send] obtain encrypted where
        m': "m' = ping\<lparr>payload := btoa (randomValues pf (drawn s) 12 @ encrypted)\<rparr>" and
        s': "sent s' = sent s @ [(peerId, RelayMessage (NodeState.nodeId s) peerId (serializeMessage m'))]"
        by blast
      from iv have "btoa (randomValues pf (drawn s) 12 @ encrypted) \<noteq> []"
        by (simp add: btoa_nonempty)
      with m' have q: "payload m' \<noteq> []" by simp
      have v: "validAtReceiver co now (serializeMessage m')"
        if h: "NodeState.nodeId s \<noteq> [] \<and> uuid \<noteq> [] \<and> sha256 pf (encode ''default'') \<noteq> [] \<and>
            t0 \<noteq> 0 \<and> now - t0 \<le> 10000"
      proof -
        from h have "of_int now - of_int t0 \<le> (10000::real)"
          by (metis of_int_diff of_int_le_iff of_int_numeral)
        then have "wellFormed now ping" by (rule facts(3))
        moreover have "truthyFields (ping\<lparr>payload := ''x''\<rparr>)"
          using h by (intro facts(4)) simp_all
        ultimately show ?thesis
          using wire_record_valid(3) [OF send iv] by blast
      qed
      from q s' v show ?thesis by blast
    qed
    from p n w show ?thesis by blast
  qed
  from a b c d show ?thesis by blast
qed


lemma exampleNode_facts:
  "\<not> isShuttingDown exampleNode"
  "mapGet (NodeState.peers exampleNode) nodeB = Some (examplePeer nodeB CONNECTED)"
  "mapGet (connections exampleNode) nodeB = Some (WebSocket True)"
  "state (examplePeer nodeB CONNECTED) = CONNECTED"
  "NodeState.nodeId exampleNode = nodeA"
  "sent exampleNode = []"
  by (simp_all add: exampleNode_def examplePeer_def mapGet_def)

lemma exampleNode_send_ping:
  "fst (sendMessage examplePlatform exampleNode nodeB examplePing) = True"
  by (simp add: sendMessage_def encryptMessage_def Let_def exampleNode_def examplePlatform_def
      examplePeer_def eval_maps split: prod.splits)

lemma examplePlatform_iv: "randomValues examplePlatform k 12 \<noteq> []"
  by (simp add: examplePlatform_def)

text \<open>
  The claim as stated fails on the heartbeat itself: the Ping that one tick of node A's
  heartbeat writes to the relay socket of peer B carries the encrypted payload and is valid
  at a receiver 50 ms later.
\<close>

theorem empty_payload_rejected_before_encryption_counterexample:
  "\<exists>m' s'. sendMessage examplePlatform exampleNode nodeB examplePing = (True, m', s') \<and>
     heartbeatTick examplePlatform 1700000000000 ''7c9e6679-7425-40de-944b-e07fc1f90ae7'' nodeB
       exampleNode = s' \<and>
     sent s' = [(nodeB, RelayMessage nodeA nodeB (serializeMessage m'))] \<and>
     payload m' \<noteq> [] \<and>
     validAtReceiver (\<lambda>v. None) 1700000000050 (serializeMessage m')"
proof -
  obtain m' s' where send: "sendMessage examplePlatform exampleNode nodeB examplePing = (True, m', s')"
    using exampleNode_send_ping
    by (cases "sendMessage examplePlatform exampleNode nodeB examplePing") auto
  have wf: "wellFormed 1700000000050 examplePing"
    by (simp add: wellFormed_def examplePing_facts)
  have tf: "truthyFields (examplePing\<lparr>payload := ''x''\<rparr>)"
    by (simp add: truthyFields_def eval_examples eval_protocol eval_entropy)
  note w = wire_record_valid [OF send examplePlatform_iv wf tf]
  have tick: "heartbeatTick examplePlatform 1700000000000 ''7c9e6679-7425-40de-944b-e07fc1f90ae7'' nodeB
       exampleNode = s'"
    using send exampleNode_facts
    by (simp add: heartbeatTick_def examplePing_def [symmetric])
  have "sent s' = [(nodeB, RelayMessage nodeA nodeB (serializeMessage m'))]"
    using w(2) by (simp add: exampleNode_facts)
  with send tick w(1) w(3) show ?thesis by blast
qed

theorem empty_payload_rejected_before_encryption_witness:
  "(\<exists>r. validateMessage (\<lambda>v. None) 1700000000050
          (JObj [(''payload'', JStr []), (''ttl'', JNum 0), (''timestamp'', JNum 0)]) = Inr r \<and>
        \<not> isValid r \<and> MissingPayload \<in> set (errors r)) \<and>
   (\<exists>r. validateMessage (\<lambda>v. None) 1700000000050
          (JObj [(''payload'', JStr []), (''ttl'', JNum 0), (''timestamp'', JNum 0)]) = Inr r \<and>
        \<not> isValid r \<and> MissingTTL \<in> set (errors r)) \<and>
   (\<exists>r. validateMessage (\<lambda>v. None) 1700000000050
          (JObj [(''payload'', JStr []), (''ttl'', JNum 0), (''timestamp'', JNum 0)]) = Inr r \<and>
        \<not> isValid r \<and> MissingTimestamp \<in> set (errors r)) \<and>
   payload examplePing = [] \<and>
   \<not> validAtReceiver (\<lambda>v. None) 1700000000050 (serializeMessage examplePing) \<and>
   (\<exists>m' s'. sendMessage examplePlatform exampleNode nodeB examplePing = (True, m', s') \<and>
      payload m' \<noteq> [] \<and>
      sent s' = [(nodeB, RelayMessage nodeA nodeB (serializeMessage m'))] \<and>
      validAtReceiver (\<lambda>v. None) 1700000000050 (serializeMessage m'))"
proof -
  let ?obj = "JObj [(''payload'', JStr []), (''ttl'', JNum 0), (''timestamp'', JNum 0)]"
  note t = empty_payload_rejected_before_encryption
    [where message = ?obj and co = "\<lambda>v. None" and now = 1700000000050 and ping = examplePing
       and pf = examplePlatform and ?t0.0 = 1700000000000
       and uuid = "''7c9e6679-7425-40de-944b-e07fc1f90ae7''" and s = exampleNode]
  have f: "field ?obj ''payload'' = JStr []" "field ?obj ''ttl'' = JNum 0"
    "field ?obj ''timestamp'' = JNum 0"
    by (simp_all add: field_def mapGet_def)
  have p: "examplePing = heartbeatPing examplePlatform 1700000000000
      ''7c9e6679-7425-40de-944b-e07fc1f90ae7'' exampleNode"
    by (simp add: examplePing_def)
  obtain m' s' where send: "sendMessage examplePlatform exampleNode nodeB examplePing = (True, m', s')"
    using exampleNode_send_ping
    by (cases "sendMessage examplePlatform exampleNode nodeB examplePing") auto
  have h: "NodeState.nodeId exampleNode \<noteq> []"
    "sha256 examplePlatform (encode ''default'') \<noteq> []"
    "randomValues examplePlatform (drawn exampleNode) 12 \<noteq> []"
    by (simp_all add: exampleNode_def examplePlatform_def exampleDigest_def nodeA_def)
  from t f have a: "(\<exists>r. validateMessage (\<lambda>v. None) 1700000000050 ?obj = Inr r \<and>
        \<not> isValid r \<and> MissingPayload \<in> set (errors r))"
    "(\<exists>r. validateMessage (\<lambda>v. None) 1700000000050 ?obj = Inr r \<and>
        \<not> isValid r \<and> MissingTTL \<in> set (errors r))"
    "(\<exists>r. validateMessage (\<lambda>v. None) 1700000000050 ?obj = Inr r \<and>
        \<not> isValid r \<and> MissingTimestamp \<in> set (errors r))"
    by blast+
  from t p have b: "payload examplePing = []"
    "\<not> validAtReceiver (\<lambda>v. None) 1700000000050 (serializeMessage examplePing)"
    by blast+
  from t p send h have c: "payload m' \<noteq> []"
    "sent s' = sent exampleNode @ [(nodeB, RelayMessage (NodeState.nodeId exampleNode) nodeB (serializeMessage m'))]"
    "validAtReceiver (\<lambda>v. None) 1700000000050 (serializeMessage m')"
    by (blast, blast, simp)
  from c(2) have "sent s' = [(nodeB, RelayMessage nodeA nodeB (serializeMessage m'))]"
    by (simp add: exampleNode_facts)
  with a b c(1,3) send show ?thesis by blast
qed


section \<open>Properties of the orchestrator\<close>

lemma gossipQueue_sendToTargets: "gossipQueue (sendToTargets pf ps m w) = gossipQueue w"
  by (induction ps arbitrary: m w) (auto split: prod.splits)

lemma gossipQueue_propagate: "gossipQueue (propagate pf cps ms w) = gossipQueue w"
  by (induction ms arbitrary: w) (simp_all add: Let_def gossipQueue_sendToTargets)

lemma gossipQueue_processGossipQueue:
  "gossipQueue (processGossipQueue pf w) =
     (if getConnectedPeers (node w) = [] then gossipQueue w
      else drop (nat (maxConcurrentGossip (gossip w))) (gossipQueue w))"
  by (simp add: processGossipQueue_def Let_def gossipQueue_propagate)

lemma processGossipQueue_no_peers:
  "getConnectedPeers (node w) = [] \<Longrightarrow> processGossipQueue pf w = w"
  by (simp add: processGossipQueue_def)

text \<open>
  Claim C3. \<open>handleGossipMessage\<close> on a Broadcast record: when \<open>currentHops \<ge> maxHops\<close> or
  the local node id is in \<open>seenBy\<close>, the state is left as it is, so nothing is enqueued and
  nothing is sent; otherwise the local node id is appended to \<open>seenBy\<close>, \<open>currentHops\<close> grows
  by one, and the record is appended to the gossip queue, on which \<open>processGossipQueue\<close>
  runs at once (with no connected peer the record stays last in the queue).
\<close>

theorem handleGossipMessage_broadcast:
  "extra m = BroadcastExtra h c seen \<Longrightarrow>
   (c \<ge> h \<or> NodeState.nodeId (node w) \<in> set seen \<longrightarrow>
      handleGossipMessage pf w m peer = (w, m, None)) \<and>
   (\<not> (c \<ge> h \<or> NodeState.nodeId (node w) \<in> set seen) \<longrightarrow>
      handleGossipMessage pf w m peer =
        (processGossipQueue pf
           (w\<lparr>gossipQueue := gossipQueue w @
              [m\<lparr>extra := BroadcastExtra h (c + 1) (seen @ [NodeState.nodeId (node w)])\<rparr>]\<rparr>),
         m\<lparr>extra := BroadcastExtra h (c + 1) (seen @ [NodeState.nodeId (node w)])\<rparr>, None) \<and>
      gossipQueue (fst (handleGossipMessage pf w m peer)) =
        (if getConnectedPeers (node w) = []
         then gossipQueue w @
           [m\<lparr>extra := BroadcastExtra h (c + 1) (seen @ [NodeState.nodeId (node w)])\<rparr>]
         else drop (nat (maxConcurrentGossip (gossip w)))
           (gossipQueue w @
             [m\<lparr>extra := BroadcastExtra h (c + 1) (seen @ [NodeState.nodeId (node w)])\<rparr>])) \<and>
      (getConnectedPeers (node w) = [] \<longrightarrow>
         fst (handleGossipMessage pf w m peer) =
           w\<lparr>gossipQueue := gossipQueue w @
             [m\<lparr>extra := BroadcastExtra h (c + 1) (seen @ [NodeState.nodeId (node w)])\<rparr>]\<rparr>))"
  by (auto simp: handleGossipMessage_def Let_def gossipQueue_processGossipQueue
      processGossipQueue_no_peers)



lemma receivedBroadcast_facts:
  "extra (receivedBroadcast h c seen) = BroadcastExtra h c seen"
  "(receivedBroadcast h c seen)\<lparr>extra := BroadcastExtra h' c' seen'\<rparr> = receivedBroadcast h' c' seen'"
  by (simp_all add: receivedBroadcast_def)

lemma exampleIsolated_facts:
  "getConnectedPeers (node exampleIsolated) = []"
  "NodeState.nodeId (node exampleIsolated) = nodeA"
  "gossipQueue exampleIsolated = []"
  by (simp_all add: exampleIsolated_def exampleOrchestrator_def exampleNode_def
      getConnectedPeers_def mapValues_def)

lemma exampleOrchestrator_facts:
  "getConnectedPeers (node exampleOrchestrator) = [examplePeer nodeB CONNECTED]"
  "NodeState.nodeId (node exampleOrchestrator) = nodeA"
  "gossipQueue exampleOrchestrator = []"
  "maxConcurrentGossip (gossip exampleOrchestrator) = 5"
  by (simp_all add: exampleOrchestrator_def exampleNode_def examplePeer_def
      getConnectedPeers_def mapValues_def)

lemma node_names: "nodeA \<noteq> nodeB" "nodeB \<noteq> nodeA"
  by (simp_all add: nodeA_def nodeB_def)

theorem handleGossipMessage_broadcast_witness:
  "handleGossipMessage examplePlatform exampleIsolated (receivedBroadcast 1 1 [nodeB, ''c''])
     (examplePeer nodeB CONNECTED)
     = (exampleIsolated, receivedBroadcast 1 1 [nodeB, ''c''], None) \<and>
   handleGossipMessage examplePlatform exampleIsolated (receivedBroadcast 10 1 [nodeB, nodeA])
     (examplePeer nodeB CONNECTED)
     = (exampleIsolated, receivedBroadcast 10 1 [nodeB, nodeA], None) \<and>
   handleGossipMessage examplePlatform exampleIsolated (receivedBroadcast 10 0 [nodeB])
     (examplePeer nodeB CONNECTED)
     = (exampleIsolated\<lparr>gossipQueue := [receivedBroadcast 10 1 [nodeB, nodeA]]\<rparr>,
        receivedBroadcast 10 1 [nodeB, nodeA], None) \<and>
   gossipQueue (fst (handleGossipMessage examplePlatform exampleOrchestrator
     (receivedBroadcast 10 0 [nodeB]) (examplePeer nodeB CONNECTED))) = []"
proof -
  have a: "handleGossipMessage examplePlatform exampleIsolated (receivedBroadcast 1 1 [nodeB, ''c''])
     (examplePeer nodeB CONNECTED)
     = (exampleIsolated, receivedBroadcast 1 1 [nodeB, ''c''], None)"
    using handleGossipMessage_broadcast [where m = "receivedBroadcast 1 1 [nodeB, ''c'']" and h = 1 and c = 1
        and seen = "[nodeB, ''c'']" and w = exampleIsolated and pf = examplePlatform
        and peer = "examplePeer nodeB CONNECTED"]
    by (simp add: receivedBroadcast_facts)
  have b: "handleGossipMessage examplePlatform exampleIsolated (receivedBroadcast 10 1 [nodeB, nodeA])
     (examplePeer nodeB CONNECTED)
     = (exampleIsolated, receivedBroadcast 10 1 [nodeB, nodeA], None)"
    using handleGossipMessage_broadcast [where m = "receivedBroadcast 10 1 [nodeB, nodeA]" and h = 10 and c = 1
        and seen = "[nodeB, nodeA]" and w = exampleIsolated and pf = examplePlatform
        and peer = "examplePeer nodeB CONNECTED"]
    by (simp add: exampleIsolated_facts receivedBroadcast_facts)
  have c: "handleGossipMessage examplePlatform exampleIsolated (receivedBroadcast 10 0 [nodeB])
     (examplePeer nodeB CONNECTED)
     = (exampleIsolated\<lparr>gossipQueue := [receivedBroadcast 10 1 [nodeB, nodeA]]\<rparr>,
        receivedBroadcast 10 1 [nodeB, nodeA], None)"
    using handleGossipMessage_broadcast [where m = "receivedBroadcast 10 0 [nodeB]" and h = 10 and c = 0
        and seen = "[nodeB]" and w = exampleIsolated and pf = examplePlatform
        and peer = "examplePeer nodeB CONNECTED"]
    by (simp add: exampleIsolated_facts receivedBroadcast_facts node_names
        processGossipQueue_no_peers)
  have d: "gossipQueue (fst (handleGossipMessage examplePlatform exampleOrchestrator
     (receivedBroadcast 10 0 [nodeB]) (examplePeer nodeB CONNECTED))) = []"
    using handleGossipMessage_broadcast [where m = "receivedBroadcast 10 0 [nodeB]" and h = 10 and c = 0
        and seen = "[nodeB]" and w = exampleOrchestrator and pf = examplePlatform
        and peer = "examplePeer nodeB CONNECTED"]
    by (auto simp add: exampleOrchestrator_facts receivedBroadcast_facts node_names)
  from a b c d show ?thesis by simp
qed


lemma receivedWhisper_facts:
  "msgType receivedWhisper = WHISPER"
  "senderId receivedWhisper = nodeB"
  "nonce receivedWhisper = ''16fd2706-8baf-433b-82eb-8c7fada847da''"
  "timestamp receivedWhisper = 1700000000000"
  "Message.ttl receivedWhisper = 300000"
  "payload receivedWhisper = ''c2VjcmV0''"
  by (simp_all add: receivedWhisper_def eval_protocol)

lemma exampleOrchestrator_fields:
  "messageHistory exampleOrchestrator = []"
  "handled exampleOrchestrator = []"
  "extensions exampleOrchestrator = [(''ext-1'', exampleExtension)]"
  "messageTTL (gossip exampleOrchestrator) = 300000"
  by (simp_all add: exampleOrchestrator_def)

lemma exampleExtension_facts:
  "id exampleExtension = ''ext-1''"
  "WhispurrExtension.supportedTypes exampleExtension = [WHISPER, RESONANCE]"
  by (simp_all add: exampleExtension_def)

lemmas eval_whispurr =
  handleMessage_def onMessageEvent_def onTypedMessage_def handleIncomingMessage_def
  routeMessageToExtensions_def cleanupMessageHistory_def isMessageExpired_def messageIdOf_def
  emitEvent_def Let_def

lemma event_path_drops_duplicate:
  "mapHas (messageHistory w) (messageIdOf m) \<Longrightarrow> handleIncomingMessage pf now w m peer = (w, m, None)"
  by (simp add: handleIncomingMessage_def)

lemma typed_path_dispatches_always:
  "msgType m \<notin> {PING, BROADCAST, RESONANCE} \<Longrightarrow>
   onTypedMessage pf now uuid w m peer = routeMessageToExtensions w m peer"
  by (cases "msgType m") (simp_all add: onTypedMessage_def)

text \<open>
  Claim C2 does not hold of the code. \<open>handleIncomingMessage\<close> drops a message whose
  \<open>senderId:nonce\<close> is in the history, but the callbacks of \<open>setupMessageHandlers\<close> dispatch
  every delivery without that check, after the event callback has run. Node A receives
  the same Whisper of B (one sender, one nonce) at 100 ms and at 200 ms of its age, well
  inside the configured TTL: the extension is called twice on the first delivery and once
  more on the second.
\<close>

theorem duplicate_whisper_dispatched_three_times:
  "\<not> isMessageExpired 1700000000200 receivedWhisper \<and>
   1700000000200 - 1700000000100 \<le> messageTTL (gossip exampleOrchestrator) \<and>
   map fst (handled (handleMessage examplePlatform 1700000000100 ''u-1'' exampleOrchestrator
      receivedWhisper (examplePeer nodeB CONNECTED))) = [''ext-1'', ''ext-1''] \<and>
   map fst (handled (handleMessage examplePlatform 1700000000200 ''u-2''
      (handleMessage examplePlatform 1700000000100 ''u-1'' exampleOrchestrator
         receivedWhisper (examplePeer nodeB CONNECTED))
      receivedWhisper (examplePeer nodeB CONNECTED))) = [''ext-1'', ''ext-1'', ''ext-1''] \<and>
   map fst (messageHistory (handleMessage examplePlatform 1700000000200 ''u-2''
      (handleMessage examplePlatform 1700000000100 ''u-1'' exampleOrchestrator
         receivedWhisper (examplePeer nodeB CONNECTED))
      receivedWhisper (examplePeer nodeB CONNECTED))) = [messageIdOf receivedWhisper]"
  by (simp add: eval_whispurr receivedWhisper_facts exampleOrchestrator_fields
      exampleExtension_facts eval_maps nodeB_def)


lemma broadcastLoop_keeps_fields:
  "(fst (snd (broadcastLoop pf ps (n, m, s))))\<lparr>payload := x\<rparr> = m\<lparr>payload := x\<rparr>"
proof (induction ps arbitrary: n m s)
  case Nil
  then show ?case by simp
next
  case (Cons a ps)
  obtain peerId peer where a: "a = (peerId, peer)" by (cases a)
  obtain ok m' s' where r: "sendMessage pf s peerId m = (ok, m', s')"
    by (cases "sendMessage pf s peerId m")
  have "m'\<lparr>payload := x\<rparr> = m\<lparr>payload := x\<rparr>"
    using sendMessage_keeps_fields [where pf = pf and s = s and peerId = peerId and m = m and x = x] r
    by simp
  with Cons.IH a r show ?case by simp
qed

lemma resonanceRecord_strength:
  "extra (resonanceRecord pf now uuid w i strength)
     = ResonanceExtra (if i = [] then ''default'' else i) 1"
  by (simp add: resonanceRecord_def createMessage_def Let_def orString_def noOptions_def)

lemma resonate_record:
  "(fst (snd (resonate pf now uuid w i strength)))\<lparr>payload := x\<rparr>
     = (resonanceRecord pf now uuid w i strength)\<lparr>payload := x\<rparr>"
  using broadcastLoop_keeps_fields
    [where pf = pf and ps = "NodeState.peers (node w)" and n = 0
       and m = "resonanceRecord pf now uuid w i strength" and s = "node w" and x = x]
  by (auto simp add: resonate_def resonanceRecord_def broadcastMessage_def Let_def split: prod.splits)

lemma resonate_strength:
  "extra (fst (snd (resonate pf now uuid w i strength)))
     = ResonanceExtra (if i = [] then ''default'' else i) 1"
proof -
  have "extra (fst (snd (resonate pf now uuid w i strength)))
      = extra ((fst (snd (resonate pf now uuid w i strength)))\<lparr>payload := []\<rparr>)"
    by simp
  also have "\<dots> = extra ((resonanceRecord pf now uuid w i strength)\<lparr>payload := []\<rparr>)"
    by (simp only: resonate_record)
  finally show ?thesis by (simp add: resonanceRecord_strength)
qed

lemma exampleReceiver_fields:
  "handled exampleReceiver = []"
  "extensions exampleReceiver = [(''ext-1'', exampleExtension)]"
  by (simp_all add: exampleReceiver_def exampleOrchestrator_def)

lemma exampleOrchestrator_node: "node exampleOrchestrator = exampleNode"
  by (simp add: exampleOrchestrator_def)

text \<open>
  Claim C4 does not hold of the code. \<open>resonate\<close> never reads its \<open>strength\<close> argument and
  the Resonance arm of \<open>createMessage\<close> writes \<open>strength: 1.0\<close>: node A resonates
  \<open>mining:coord\<close> with strength 0.4, the record sent to peer B carries strength 1, and the
  default matcher of B, which would refuse 0.4, dispatches it to the extension.
\<close>

theorem resonate_always_full_strength:
  "fst (resonate examplePlatform 1700000000000 ''u-3'' exampleOrchestrator ''mining:coord'' 0.4) = 1 \<and>
   map fst (sent (node (snd (snd
     (resonate examplePlatform 1700000000000 ''u-3'' exampleOrchestrator ''mining:coord'' 0.4)))))
     = [nodeB] \<and>
   extra (fst (snd
     (resonate examplePlatform 1700000000000 ''u-3'' exampleOrchestrator ''mining:coord'' 0.4)))
     = ResonanceExtra ''mining:coord'' 1 \<and>
   \<not> checkResonance ''mining:coord'' 0.4 \<and>
   map fst (handled (handleResonanceMessage exampleReceiver
     (fst (snd (resonate examplePlatform 1700000000000 ''u-3'' exampleOrchestrator ''mining:coord'' 0.4)))
     (examplePeer nodeA CONNECTED))) = [''ext-1'']"
proof -
  have s: "extra (fst (snd
     (resonate examplePlatform 1700000000000 ''u-3'' exampleOrchestrator ''mining:coord'' 0.4)))
     = ResonanceExtra ''mining:coord'' 1"
    by (simp add: resonate_strength)
  have t: "msgType (fst (snd
     (resonate examplePlatform 1700000000000 ''u-3'' exampleOrchestrator ''mining:coord'' 0.4)))
     = RESONANCE"
  proof -
    have "msgType (fst (snd
        (resonate examplePlatform 1700000000000 ''u-3'' exampleOrchestrator ''mining:coord'' 0.4)))
      = msgType ((fst (snd
        (resonate examplePlatform 1700000000000 ''u-3'' exampleOrchestrator ''mining:coord'' 0.4)))
          \<lparr>payload := []\<rparr>)"
      by simp
    also have "\<dots> = RESONANCE"
      by (simp only: resonate_record) (simp add: resonanceRecord_def createMessage_def Let_def)
    finally show ?thesis .
  qed
  have n: "fst (resonate examplePlatform 1700000000000 ''u-3'' exampleOrchestrator ''mining:coord'' 0.4) = 1 \<and>
     map fst (sent (node (snd (snd
       (resonate examplePlatform 1700000000000 ''u-3'' exampleOrchestrator ''mining:coord'' 0.4)))))
     = [nodeB]"
    by (simp add: resonate_def broadcastMessage_def sendMessage_def encryptMessage_def Let_def
        exampleOrchestrator_node exampleNode_def examplePeer_def examplePlatform_def eval_maps
        split: prod.splits)
  have h: "map fst (handled (handleResonanceMessage exampleReceiver
     (fst (snd (resonate examplePlatform 1700000000000 ''u-3'' exampleOrchestrator ''mining:coord'' 0.4)))
     (examplePeer nodeA CONNECTED))) = [''ext-1'']"
    using s t
    by (simp add: handleResonanceMessage_def checkResonance_def routeMessageToExtensions_def
        exampleReceiver_fields exampleExtension_facts mapValues_def)
  from n s h show ?thesis by (simp add: checkResonance_def)
qed

section \<open>Properties of the peer manager\<close>



lemma mapHas_mapSet: "mapHas (mapSet k v m) k' \<longleftrightarrow> k' = k \<or> mapHas m k'"
proof (cases "mapHas m k")
  case True
  then have "map fst (mapSet k v m) = map fst m" by (rule keys_mapSet)
  then have "mapHas (mapSet k v m) k' = mapHas m k'" by (simp only: mapHas_def)
  with True show ?thesis by auto
next
  case False
  then show ?thesis by (auto simp: mapSet_def mapHas_def)
qed








text \<open>The store: node ids are kept, and a table keyed over a store is keyed over every
  later store.\<close>

lemma sameIds_refl: "sameIds objs objs"
  by (simp add: sameIds_def)








lemma keyed_entry:
  "keyed objs m \<Longrightarrow> (k, a) \<in> set m \<Longrightarrow> a < length objs \<and> PeerAddressInfo.nodeId (objs ! a) = k"
  by (auto simp: keyed_def list_all_iff)

lemma keyed_mapGet:
  "keyed objs m \<Longrightarrow> mapGet m k = Some a \<Longrightarrow>
   a < length objs \<and> PeerAddressInfo.nodeId (objs ! a) = k"
  by (auto simp: mapGet_def dest!: map_of_SomeD keyed_entry)








































end
